theory Spec2Isabelle
  imports Complex_Main
begin

section \<open>Python values and exceptions\<close>

text \<open>
  The values the service handles are what \<^verbatim>\<open>response.json()\<close> produces: \<^verbatim>\<open>None\<close>, booleans,
  integers, floats, strings, lists and dicts with string keys. A dict is an association list
  read with \<open>map_of\<close>. Python floats are idealised as reals: no claim depends on rounding.
\<close>

datatype pyval =
    PNone
  | PBool bool
  | PInt int
  | PFloat real
  | PStr string
  | PList "pyval list"
  | PDict "(string \<times> pyval) list"

text \<open>
  The exceptions that can travel through \<^verbatim>\<open>main.py\<close>. \<open>RequestError\<close> stands for
  \<^verbatim>\<open>httpx.RequestError\<close> and its subclasses, \<open>SQLiteError\<close> for \<^verbatim>\<open>sqlite3.Error\<close> and its
  subclasses, \<open>OtherError\<close> for any other exception a library call raises. The string is
  \<^verbatim>\<open>str(e)\<close>.
\<close>

datatype exn =
    ValueError string
  | RuntimeError string
  | RequestError string
  | SQLiteError string
  | OverflowError string
  | AttributeError string
  | IndexError string
  | KeyError string
  | TypeError string
  | OtherError string

text \<open>Truthiness, as \<^verbatim>\<open>not x\<close> and \<^verbatim>\<open>x or y\<close> read it.\<close>

fun truthy :: "pyval \<Rightarrow> bool" where
  "truthy PNone = False"
| "truthy (PBool b) = b"
| "truthy (PInt i) = (i \<noteq> 0)"
| "truthy (PFloat x) = (x \<noteq> 0)"
| "truthy (PStr s) = (s \<noteq> [])"
| "truthy (PList xs) = (xs \<noteq> [])"
| "truthy (PDict kvs) = (kvs \<noteq> [])"

text \<open>\<^verbatim>\<open>obj.get(key, default)\<close>: only a dict has the method.\<close>

fun py_get :: "pyval \<Rightarrow> string \<Rightarrow> pyval \<Rightarrow> exn + pyval" where
  "py_get (PDict kvs) k d = Inr (case map_of kvs k of None \<Rightarrow> d | Some v \<Rightarrow> v)"
| "py_get _ k d = Inl (AttributeError ''object has no attribute 'get' '')"

text \<open>
  \<^verbatim>\<open>obj[0]\<close>: the first element of a list, the first character of a string; an empty
  sequence raises IndexError, a dict (whose keys are strings) raises KeyError, anything
  else is not subscriptable.
\<close>

fun py_index0 :: "pyval \<Rightarrow> exn + pyval" where
  "py_index0 (PList []) = Inl (IndexError ''list index out of range'')"
| "py_index0 (PList (x # xs)) = Inr x"
| "py_index0 (PStr []) = Inl (IndexError ''string index out of range'')"
| "py_index0 (PStr (c # cs)) = Inr (PStr [c])"
| "py_index0 (PDict kvs) = Inl (KeyError ''0'')"
| "py_index0 _ = Inl (TypeError ''object is not subscriptable'')"

text \<open>Sequencing of calls that may raise: the first exception ends the evaluation.\<close>

fun and_then :: "exn + 'a \<Rightarrow> ('a \<Rightarrow> exn + 'b) \<Rightarrow> exn + 'b" where
  "and_then (Inl x) f = Inl x"
| "and_then (Inr v) f = f v"

section \<open>The world outside the process\<close>

text \<open>
  An outbound GET is a URL with its query parameters. \<^verbatim>\<open>client.get\<close> either returns a
  response or raises; a response has a status code and the result of calling
  \<^verbatim>\<open>response.json()\<close>, which itself may raise on a body that is not JSON.
\<close>

record request =
  url :: string
  params :: "(string \<times> pyval) list"

record response =
  status_code :: int
  json :: "exn + pyval"

datatype get_outcome = Returned response | Raised exn

text \<open>
  A row of \<^verbatim>\<open>owie_logs\<close>: the id and the ten columns of the INSERT, each holding the value
  that SQLite stores for it.
\<close>

record owie_row =
  row_id :: int
  date_time :: pyval
  body_part :: pyval
  temperature :: pyval
  pressure :: pyval
  humidity :: pyval
  precipitation :: pyval
  uv_index :: pyval
  weather_id :: pyval
  weather_main :: pyval
  weather_description :: pyval

text \<open>
  An SQLite database: its tables by name, each with the columns of \<^verbatim>\<open>owie_logs\<close> (the one
  CREATE TABLE statement of the program) and its rows in insertion order, and SQLite's own
  table \<^verbatim>\<open>sqlite_sequence\<close>, which exists once a table with an AUTOINCREMENT column has been
  created and holds, per table name, the largest row id handed out.
\<close>

record database =
  tables :: "string \<rightharpoonup> owie_row list"
  sequence :: "(string \<rightharpoonup> int) option"

text \<open>
  The file at \<^verbatim>\<open>settings.db_path\<close>: absent, or an SQLite database (an empty file is a
  database with no table).
\<close>

datatype db_file = Missing | Present database

text \<open>
  What the process has done so far: the GETs it issued, the durations it slept, how many
  random numbers it drew, and the database file.
\<close>

record world =
  requests :: "request list"
  slept :: "real list"
  draws :: nat
  db :: db_file

text \<open>
  What the environment answers: the outcome of the n-th GET the process issues, the n-th
  value \<^verbatim>\<open>random.uniform\<close> returns for given bounds, and whether \<^verbatim>\<open>os.makedirs\<close>, \<^verbatim>\<open>open\<close> and
  the commit of the INSERT raise (\<open>Some\<close> the message). The last two fields are SQLite's
  conversions between text and numbers, taken as given: the number that a text which looks
  like a numeric literal stands for (\<open>None\<close> for any other text), and the text form of a
  float.
\<close>

record env =
  http :: "nat \<Rightarrow> request \<Rightarrow> get_outcome"
  uniform :: "nat \<Rightarrow> real \<Rightarrow> real \<Rightarrow> real"
  makedirs_error :: "string option"
  open_error :: "string option"
  commit_error :: "string option"
  numeric_text :: "string \<Rightarrow> pyval option"
  real_text :: "real \<Rightarrow> string"

section \<open>Settings\<close>

record settings =
  ow_api_key :: string
  db_path :: string
  lat :: real
  lon :: real

section \<open>get_weather_data\<close>

definition retries :: nat where
  "retries = 5"

definition onecall_url :: string where
  "onecall_url = ''https://api.openweathermap.org/data/3.0/onecall''"

definition weather_request :: "string \<Rightarrow> real \<Rightarrow> real \<Rightarrow> string \<Rightarrow> request" where
  "weather_request api_key la lo exclude =
     \<lparr>url = onecall_url,
      params = [(''lat'', PFloat la), (''lon'', PFloat lo), (''appid'', PStr api_key),
                (''units'', PStr ''imperial''), (''exclude'', PStr exclude)]\<rparr>"

text \<open>The body of the \<^verbatim>\<open>try\<close>: the GET and the three-way test of the status code.\<close>

definition try_get :: "get_outcome \<Rightarrow> exn + pyval" where
  "try_get out =
     (case out of
        Raised x \<Rightarrow> Inl x
      | Returned r \<Rightarrow>
          if status_code r = 200 then json r
          else if status_code r = 429 then
            Inl (RuntimeError ''Too many requests - API rate limit reached. Please try again later.'')
          else Inl (RuntimeError ''Error fetching weather data from the API.''))"

text \<open>
  The \<^verbatim>\<open>for attempt in range(1, retries + 1)\<close> loop. \<open>None\<close> is the loop running out of
  attempts without a \<^verbatim>\<open>return\<close> or a \<^verbatim>\<open>raise\<close>. Only a RequestError reaches the handler;
  every other exception leaves the function.
\<close>

function retry_loop ::
  "env \<Rightarrow> request \<Rightarrow> nat \<Rightarrow> int \<Rightarrow> world \<Rightarrow> (exn + pyval) option \<times> world" where
  "retry_loop e rq attempt backoff w =
     (if retries < attempt then (None, w)
      else
        let out = http e (length (requests w)) rq;
            w1 = w\<lparr>requests := requests w @ [rq]\<rparr>
        in case try_get out of
             Inr v \<Rightarrow> (Some (Inr v), w1)
           | Inl (RequestError msg) \<Rightarrow>
               if attempt = retries then
                 (Some (Inl (RuntimeError (''Request failed after 5 retries: '' @ msg))), w1)
               else
                 let jitter = uniform e (draws w1) 0 (1 / 2);
                     w2 = w1\<lparr>draws := Suc (draws w1),
                             slept := slept w1 @ [real_of_int backoff + jitter]\<rparr>
                 in retry_loop e rq (Suc attempt) (backoff * 2) w2
           | Inl x \<Rightarrow> (Some (Inl x), w1))"
  by pat_completeness auto
termination
  by (relation "measure (\<lambda>(e, rq, attempt, backoff, w). Suc retries - attempt)") auto

declare retry_loop.simps [simp del]

definition get_weather_data ::
  "env \<Rightarrow> string \<Rightarrow> real \<Rightarrow> real \<Rightarrow> string \<Rightarrow> world \<Rightarrow> (exn + pyval) \<times> world" where
  "get_weather_data e api_key la lo exclude w =
     (if api_key = [] then (Inl (ValueError ''API key is required.''), w)
      else
        case retry_loop e (weather_request api_key la lo exclude) 1 1 w of
          (None, w') \<Rightarrow> (Inr PNone, w')
        | (Some r, w') \<Rightarrow> (r, w'))"

definition default_exclude :: string where
  "default_exclude = ''minutely,hourly,daily,alerts''"

section \<open>validate_settings\<close>

fun join_comma :: "string list \<Rightarrow> string" where
  "join_comma [] = []"
| "join_comma [k] = k"
| "join_comma (k # ks) = k @ '', '' @ join_comma ks"

definition missing_keys :: "settings \<Rightarrow> string list" where
  "missing_keys s =
     (if ow_api_key s = [] then [''ow_api_key''] else []) @
     (if lat s = 0 then [''lat''] else []) @
     (if lon s = 0 then [''lon''] else [])"

definition validate_settings :: "settings \<Rightarrow> exn + unit" where
  "validate_settings s =
     (if missing_keys s \<noteq> [] then
        Inl (ValueError (''Missing required environment variables: '' @ join_comma (missing_keys s)))
      else Inr ())"

section \<open>setup_database\<close>

definition owie_logs :: string where
  "owie_logs = ''owie_logs''"

definition sqlite_sequence :: string where
  "sqlite_sequence = ''sqlite_sequence''"

definition empty_database :: database where
  "empty_database = \<lparr>tables = Map.empty, sequence = None\<rparr>"

text \<open>\<^verbatim>\<open>connect(path)\<close> opens the database, creating an empty one when the file is absent.\<close>

fun connect :: "db_file \<Rightarrow> database" where
  "connect Missing = empty_database"
| "connect (Present d) = d"

text \<open>
  \<^verbatim>\<open>CREATE TABLE IF NOT EXISTS owie_logs (... id INTEGER PRIMARY KEY AUTOINCREMENT ...)\<close>:
  nothing happens when the table exists; otherwise the table is created empty, and with it
  \<^verbatim>\<open>sqlite_sequence\<close> unless that exists already, because of the AUTOINCREMENT column.
\<close>

definition create_table_if_not_exists :: "database \<Rightarrow> database" where
  "create_table_if_not_exists d =
     (case tables d owie_logs of
        Some rs \<Rightarrow> d
      | None \<Rightarrow>
          d\<lparr>tables := (tables d)(owie_logs \<mapsto> []),
            sequence := Some (case sequence d of None \<Rightarrow> Map.empty | Some m \<Rightarrow> m)\<rparr>)"

text \<open>
  The file is created when it is absent; an OSError of \<^verbatim>\<open>os.makedirs\<close> or \<^verbatim>\<open>open\<close> becomes a
  RuntimeError. The commit after the CREATE TABLE has nothing pending.
\<close>

definition ensure_file :: "env \<Rightarrow> db_file \<Rightarrow> exn + db_file" where
  "ensure_file e d =
     (case d of
        Present tabs \<Rightarrow> Inr d
      | Missing \<Rightarrow>
          (case makedirs_error e of
             Some m \<Rightarrow> Inl (RuntimeError (''Error creating database file or directory: '' @ m))
           | None \<Rightarrow>
               (case open_error e of
                  Some m \<Rightarrow> Inl (RuntimeError (''Error creating database file or directory: '' @ m))
                | None \<Rightarrow> Inr (Present empty_database))))"

definition setup_database :: "env \<Rightarrow> db_file \<Rightarrow> exn + db_file" where
  "setup_database e d =
     and_then (ensure_file e d) (\<lambda>d1. Inr (Present (create_table_if_not_exists (connect d1))))"

section \<open>What SQLite stores\<close>

text \<open>
  Binding a parameter: sqlite3 takes None, integers of 64 bits, floats and strings, and a
  bool as the integer 1 or 0; it refuses lists and dicts.
\<close>

fun as_bound :: "pyval \<Rightarrow> pyval" where
  "as_bound (PBool b) = PInt (if b then 1 else 0)"
| "as_bound v = v"

fun bind_param :: "pyval \<Rightarrow> exn + pyval" where
  "bind_param (PList xs) = Inl (SQLiteError ''Error binding parameter: type 'list' is not supported'')"
| "bind_param (PDict kvs) = Inl (SQLiteError ''Error binding parameter: type 'dict' is not supported'')"
| "bind_param (PInt i) =
     (if - (2 ^ 63) \<le> i \<and> i < 2 ^ 63 then Inr (PInt i)
      else Inl (OverflowError ''Python int too large to convert to SQLite INTEGER''))"
| "bind_param v = Inr (as_bound v)"

text \<open>
  The conversion of a 64-bit integer to a double: exact below \<open>2 ^ 53\<close>, otherwise rounded
  to 53 significant bits, to the nearest value and to the even one at a tie.
\<close>

function excess_bits :: "nat \<Rightarrow> nat" where
  "excess_bits n = (if n < 2 ^ 53 then 0 else Suc (excess_bits (n div 2)))"
  by pat_completeness auto
termination
  by (relation "measure id") auto

declare excess_bits.simps [simp del]

definition nat_to_double :: "nat \<Rightarrow> nat" where
  "nat_to_double n =
     (let e = excess_bits n; q = n div 2 ^ e; r = n mod 2 ^ e
      in if 2 ^ e < 2 * r \<or> (2 * r = 2 ^ e \<and> odd q) then (q + 1) * 2 ^ e else q * 2 ^ e)"

definition int_to_double :: "int \<Rightarrow> real" where
  "int_to_double i =
     (if i < 0 then - real (nat_to_double (nat (- i))) else real (nat_to_double (nat i)))"

text \<open>The text form of an integer.\<close>

fun nat_text :: "nat \<Rightarrow> string" where
  "nat_text n =
     (if n < 10 then [''0123456789'' ! n]
      else nat_text (n div 10) @ [''0123456789'' ! (n mod 10)])"

declare nat_text.simps [simp del]

definition int_text :: "int \<Rightarrow> string" where
  "int_text i = (if i < 0 then CHR ''-'' # nat_text (nat (- i)) else nat_text (nat i))"

text \<open>
  A float in a column of INTEGER affinity becomes an integer when it is one, strictly
  between the least and the greatest 64-bit integer.
\<close>

definition real_to_integer :: "real \<Rightarrow> pyval" where
  "real_to_integer x =
     (if x = of_int \<lfloor>x\<rfloor> \<and> - (2 ^ 63) < \<lfloor>x\<rfloor> \<and> \<lfloor>x\<rfloor> < 2 ^ 63 - 1 then PInt \<lfloor>x\<rfloor> else PFloat x)"

text \<open>
  The declared types of the columns give them an affinity: INTEGER for \<^verbatim>\<open>weather_id\<close> and
  \<^verbatim>\<open>date_time\<close>, TEXT for \<^verbatim>\<open>weather_main\<close>, \<^verbatim>\<open>weather_description\<close> and \<^verbatim>\<open>body_part\<close>, REAL
  for \<^verbatim>\<open>humidity\<close>, \<^verbatim>\<open>precipitation\<close>, \<^verbatim>\<open>uv_index\<close>, \<^verbatim>\<open>temperature\<close> and \<^verbatim>\<open>pressure\<close>. The
  value stored for a bound parameter: a TEXT column turns a number into its text form; a
  REAL column turns an integer, and a text that looks like a number, into a float; an
  INTEGER column turns a float that is an integer, and a text that looks like a number,
  into an integer where it can. NULL and any other text stay as they are.
\<close>

datatype affinity = Integer_affinity | Real_affinity | Text_affinity

fun store :: "env \<Rightarrow> affinity \<Rightarrow> pyval \<Rightarrow> pyval" where
  "store e Text_affinity (PInt i) = PStr (int_text i)"
| "store e Text_affinity (PFloat x) = PStr (real_text e x)"
| "store e Real_affinity (PInt i) = PFloat (int_to_double i)"
| "store e Real_affinity (PStr s) =
     (case numeric_text e s of
        None \<Rightarrow> PStr s
      | Some (PInt i) \<Rightarrow> PFloat (int_to_double i)
      | Some n \<Rightarrow> n)"
| "store e Integer_affinity (PFloat x) = real_to_integer x"
| "store e Integer_affinity (PStr s) =
     (case numeric_text e s of
        None \<Rightarrow> PStr s
      | Some (PFloat x) \<Rightarrow> real_to_integer x
      | Some n \<Rightarrow> n)"
| "store e a v = v"

text \<open>The columns declared NOT NULL refuse None.\<close>

definition not_null :: "string \<Rightarrow> pyval \<Rightarrow> exn + pyval" where
  "not_null col v =
     (if v = PNone then Inl (SQLiteError (''NOT NULL constraint failed: owie_logs.'' @ col))
      else Inr v)"

text \<open>
  The id of a new row of a table with an AUTOINCREMENT key: one more than the largest id
  that the table holds or that \<^verbatim>\<open>sqlite_sequence\<close> remembers for it. No id follows the
  greatest 64-bit integer.
\<close>

definition largest_id :: "database \<Rightarrow> owie_row list \<Rightarrow> int" where
  "largest_id d rs =
     fold max (map row_id rs)
       (case sequence d of
          None \<Rightarrow> 0
        | Some m \<Rightarrow> (case m owie_logs of None \<Rightarrow> 0 | Some n \<Rightarrow> n))"

definition new_row_id :: "database \<Rightarrow> owie_row list \<Rightarrow> exn + int" where
  "new_row_id d rs =
     (if 2 ^ 63 - 1 \<le> largest_id d rs then Inl (SQLiteError ''database or disk is full'')
      else Inr (largest_id d rs + 1))"

section \<open>insert_owie_log\<close>

text \<open>\<^verbatim>\<open>weather_data[key]\<close> on the dict that \<^verbatim>\<open>log_owie\<close> builds.\<close>

definition py_item :: "(string \<times> pyval) list \<Rightarrow> string \<Rightarrow> exn + pyval" where
  "py_item kvs k = (case map_of kvs k of None \<Rightarrow> Inl (KeyError k) | Some v \<Rightarrow> Inr v)"

text \<open>\<^verbatim>\<open>INSERT INTO owie_logs\<close> needs the table.\<close>

definition table_rows :: "database \<Rightarrow> exn + owie_row list" where
  "table_rows d =
     (case tables d owie_logs of
        None \<Rightarrow> Inl (SQLiteError ''no such table: owie_logs'')
      | Some rs \<Rightarrow> Inr rs)"

text \<open>
  The INSERT with its ten parameters: the tuple is built first (a missing key raises
  KeyError), the statement is prepared, every parameter is bound in the order of the tuple,
  then the statement runs: it checks the NOT NULL columns, picks the id, stores every value
  under the affinity of its column, and records the id in \<^verbatim>\<open>sqlite_sequence\<close>.
\<close>

definition execute_insert ::
  "env \<Rightarrow> pyval \<Rightarrow> string \<Rightarrow> (string \<times> pyval) list \<Rightarrow> database \<Rightarrow> exn + database" where
  "execute_insert e dt bp weather_data d =
     and_then (py_item weather_data ''temperature'') (\<lambda>temp.
     and_then (py_item weather_data ''pressure'') (\<lambda>pres.
     and_then (py_item weather_data ''humidity'') (\<lambda>hum.
     and_then (py_item weather_data ''precipitation'') (\<lambda>prec.
     and_then (py_item weather_data ''uv_index'') (\<lambda>uv.
     and_then (py_item weather_data ''weather_id'') (\<lambda>wid.
     and_then (py_item weather_data ''weather_main'') (\<lambda>wmain.
     and_then (py_item weather_data ''weather_description'') (\<lambda>wdesc.
     and_then (table_rows d) (\<lambda>rs.
     and_then (bind_param dt) (\<lambda>c_dt.
     and_then (bind_param (PStr bp)) (\<lambda>c_bp.
     and_then (bind_param temp) (\<lambda>c_temp.
     and_then (bind_param pres) (\<lambda>c_pres.
     and_then (bind_param hum) (\<lambda>c_hum.
     and_then (bind_param prec) (\<lambda>c_prec.
     and_then (bind_param uv) (\<lambda>c_uv.
     and_then (bind_param wid) (\<lambda>c_wid.
     and_then (bind_param wmain) (\<lambda>c_wmain.
     and_then (bind_param wdesc) (\<lambda>c_wdesc.
     and_then (not_null ''date_time'' c_dt) (\<lambda>_.
     and_then (not_null ''body_part'' c_bp) (\<lambda>_.
     and_then (not_null ''humidity'' c_hum) (\<lambda>_.
     and_then (not_null ''precipitation'' c_prec) (\<lambda>_.
     and_then (not_null ''uv_index'' c_uv) (\<lambda>_.
     and_then (not_null ''temperature'' c_temp) (\<lambda>_.
     and_then (not_null ''pressure'' c_pres) (\<lambda>_.
     and_then (new_row_id d rs) (\<lambda>n.
       Inr (d\<lparr>tables := (tables d)(owie_logs \<mapsto> rs @
               [\<lparr>row_id = n,
                 date_time = store e Integer_affinity c_dt,
                 body_part = store e Text_affinity c_bp,
                 temperature = store e Real_affinity c_temp,
                 pressure = store e Real_affinity c_pres,
                 humidity = store e Real_affinity c_hum,
                 precipitation = store e Real_affinity c_prec,
                 uv_index = store e Real_affinity c_uv,
                 weather_id = store e Integer_affinity c_wid,
                 weather_main = store e Text_affinity c_wmain,
                 weather_description = store e Text_affinity c_wdesc\<rparr>]),
              sequence := Some ((case sequence d of None \<Rightarrow> Map.empty | Some m \<Rightarrow> m)
                                  (owie_logs \<mapsto> n))\<rparr>))))))))))))))))))))))))))))"

text \<open>
  The statement runs on the connection's database; an exception of the statement leaves
  the \<^verbatim>\<open>with\<close> block, which rolls back, and so does a failed commit, after it has become a
  RuntimeError.
\<close>

definition insert_owie_log ::
  "env \<Rightarrow> pyval \<Rightarrow> string \<Rightarrow> (string \<times> pyval) list \<Rightarrow> db_file \<Rightarrow> (exn + unit) \<times> db_file" where
  "insert_owie_log e dt bp weather_data f =
     (let d = connect f in
      case execute_insert e dt bp weather_data d of
        Inl x \<Rightarrow> (Inl x, Present d)
      | Inr d' \<Rightarrow>
          (case commit_error e of
             Some m \<Rightarrow>
               (Inl (RuntimeError (''Error while inserting data into the database: '' @ m)),
                Present d)
           | None \<Rightarrow> (Inr (), Present d')))"

section \<open>The route handlers\<close>

text \<open>
  A handler returns a dict, or a pair of a dict and a number (\<^verbatim>\<open>return {...}, 400\<close>). A
  \<open>Page\<close> is a document that FastAPI generates itself; its content is not modelled.
\<close>

datatype reply =
    Reply "(string \<times> pyval) list"
  | ReplyPair "(string \<times> pyval) list" int
  | Page string

definition home :: reply where
  "home = ReplyPair [(''message'', PStr ''Hello World'')] 200"

text \<open>The local variables of \<^verbatim>\<open>log_owie\<close> read from the payload, in the order of the source.\<close>

record reading =
  v_humidity :: pyval
  v_precipitation :: pyval
  v_uv_index :: pyval
  v_weather_id :: pyval
  v_weather_main :: pyval
  v_weather_description :: pyval
  v_temperature :: pyval
  v_pressure :: pyval
  v_date_time :: pyval

text \<open>\<^verbatim>\<open>a.get("rain", {}).get("1h", 0.0) or a.get("snow", {}).get("1h", 0.0)\<close>\<close>

definition get_precipitation :: "pyval \<Rightarrow> exn + pyval" where
  "get_precipitation cw =
     and_then (py_get cw ''rain'' (PDict [])) (\<lambda>rain.
     and_then (py_get rain ''1h'' (PFloat 0)) (\<lambda>r1.
       if truthy r1 then Inr r1
       else and_then (py_get cw ''snow'' (PDict [])) (\<lambda>snow. py_get snow ''1h'' (PFloat 0))))"

text \<open>\<^verbatim>\<open>a.get("weather", [{}])[0].get(key)\<close>\<close>

definition first_weather :: "pyval \<Rightarrow> string \<Rightarrow> exn + pyval" where
  "first_weather cw k =
     and_then (py_get cw ''weather'' (PList [PDict []])) (\<lambda>ws.
     and_then (py_index0 ws) (\<lambda>w0. py_get w0 k PNone))"

definition read_weather :: "pyval \<Rightarrow> exn + reading" where
  "read_weather weather_data =
     and_then (py_get weather_data ''current'' (PDict [])) (\<lambda>cw.
     and_then (py_get cw ''humidity'' PNone) (\<lambda>hum.
     and_then (get_precipitation cw) (\<lambda>prec.
     and_then (py_get cw ''uvi'' PNone) (\<lambda>uv.
     and_then (first_weather cw ''id'') (\<lambda>wid.
     and_then (first_weather cw ''main'') (\<lambda>wmain.
     and_then (first_weather cw ''description'') (\<lambda>wdesc.
     and_then (py_get cw ''temp'' PNone) (\<lambda>temp.
     and_then (py_get cw ''pressure'' PNone) (\<lambda>pres.
     and_then (py_get cw ''dt'' PNone) (\<lambda>dt.
       Inr \<lparr>v_humidity = hum, v_precipitation = prec, v_uv_index = uv, v_weather_id = wid,
            v_weather_main = wmain, v_weather_description = wdesc, v_temperature = temp,
            v_pressure = pres, v_date_time = dt\<rparr>))))))))))"

definition incomplete :: "reading \<Rightarrow> bool" where
  "incomplete v \<longleftrightarrow>
     v_temperature v = PNone \<or> v_pressure v = PNone \<or> v_date_time v = PNone \<or>
     v_humidity v = PNone \<or> v_uv_index v = PNone \<or> v_weather_id v = PNone \<or>
     v_weather_main v = PNone \<or> v_weather_description v = PNone"

definition log_weather_data :: "reading \<Rightarrow> (string \<times> pyval) list" where
  "log_weather_data v =
     [(''weather_id'', v_weather_id v),
      (''weather_main'', v_weather_main v),
      (''weather_description'', v_weather_description v),
      (''temperature'', v_temperature v),
      (''pressure'', v_pressure v),
      (''humidity'', v_humidity v),
      (''precipitation'', v_precipitation v),
      (''uv_index'', v_uv_index v)]"

definition success_reply :: "string \<Rightarrow> reading \<Rightarrow> reply" where
  "success_reply bp v =
     Reply [(''message'', PStr ''Logged owie details successfully''),
            (''body_part'', PStr bp),
            (''temperature'', v_temperature v),
            (''pressure'', v_pressure v)]"

definition log_owie :: "settings \<Rightarrow> env \<Rightarrow> string \<Rightarrow> world \<Rightarrow> (exn + reply) \<times> world" where
  "log_owie s e bp w =
     (if ow_api_key s = [] \<or> db_path s = [] \<or> lat s = 0 \<or> lon s = 0 then
        (Inr (ReplyPair [(''error'', PStr ''Missing required environment variables'')] 400), w)
      else
        case get_weather_data e (ow_api_key s) (lat s) (lon s) default_exclude w of
          (Inl x, w1) \<Rightarrow> (Inl x, w1)
        | (Inr weather_data, w1) \<Rightarrow>
            (case read_weather weather_data of
               Inl x \<Rightarrow> (Inl x, w1)
             | Inr v \<Rightarrow>
                 if incomplete v then
                   (Inl (RuntimeError ''Incomplete weather data received from the API.''), w1)
                 else
                   (case setup_database e (db w1) of
                      Inl x \<Rightarrow> (Inl x, w1)
                    | Inr d1 \<Rightarrow>
                        (case insert_owie_log e (v_date_time v) bp (log_weather_data v) d1 of
                           (Inl x, d2) \<Rightarrow> (Inl x, w1\<lparr>db := d2\<rparr>)
                         | (Inr u, d2) \<Rightarrow> (Inr (success_reply bp v), w1\<lparr>db := d2\<rparr>)))))"

section \<open>The routes of the application\<close>

datatype http_method = GET | POST | PUT | DELETE | PATCH | HEAD | OPTIONS

datatype handler = Openapi_json | Swagger_ui | Swagger_ui_redirect | Redoc | Home | Log_owie

record route =
  route_methods :: "http_method list"
  route_path :: string
  route_endpoint :: handler

text \<open>
  \<^verbatim>\<open>app = FastAPI()\<close> with the default settings registers the routes of the generated
  documentation, each for GET and HEAD: the OpenAPI schema, the Swagger UI, its OAuth2
  redirect page, and ReDoc.
\<close>

definition fastapi_routes :: "route list" where
  "fastapi_routes =
     [\<lparr>route_methods = [GET, HEAD], route_path = ''/openapi.json'', route_endpoint = Openapi_json\<rparr>,
      \<lparr>route_methods = [GET, HEAD], route_path = ''/docs'', route_endpoint = Swagger_ui\<rparr>,
      \<lparr>route_methods = [GET, HEAD], route_path = ''/docs/oauth2-redirect'',
        route_endpoint = Swagger_ui_redirect\<rparr>,
      \<lparr>route_methods = [GET, HEAD], route_path = ''/redoc'', route_endpoint = Redoc\<rparr>]"

text \<open>\<^verbatim>\<open>@app.get(path)\<close> and \<^verbatim>\<open>@app.post(path)\<close> append a route for the one method.\<close>

definition api_route :: "http_method \<Rightarrow> string \<Rightarrow> handler \<Rightarrow> route" where
  "api_route m p h = \<lparr>route_methods = [m], route_path = p, route_endpoint = h\<rparr>"

text \<open>The routes that the decorators of \<^verbatim>\<open>main.py\<close> declare, in the order of the file.\<close>

definition declared_routes :: "route list" where
  "declared_routes = [api_route GET ''/'' Home, api_route POST ''/owie/{body_part}'' Log_owie]"

definition app_routes :: "route list" where
  "app_routes = fastapi_routes @ declared_routes"

text \<open>The routes other than the one of \<^verbatim>\<open>log_owie\<close>.\<close>

definition other_routes :: "route list" where
  "other_routes = fastapi_routes @ [api_route GET ''/'' Home]"

text \<open>
  A path matches a route's path when the literal characters agree and every \<^verbatim>\<open>{name}\<close>
  stands for one or more characters other than \<^verbatim>\<open>/\<close>, as many as there are; the values of
  the parameters are the result. As the pattern ends with \<^verbatim>\<open>$\<close>, one newline may follow. This
  is the matching of the paths of this application, whose parameter ends the path.
\<close>

function match_path :: "string \<Rightarrow> string \<Rightarrow> string list option" where
  "match_path [] p = (if p = [] \<or> p = [CHR 0x0A] then Some [] else None)"
| "match_path (c # t) p =
     (if c = CHR ''{'' then
        (if takeWhile (\<lambda>x. x \<noteq> CHR ''/'') p = [] then None
         else map_option ((#) (takeWhile (\<lambda>x. x \<noteq> CHR ''/'') p))
                (match_path (drop 1 (dropWhile (\<lambda>x. x \<noteq> CHR ''}'') t))
                   (dropWhile (\<lambda>x. x \<noteq> CHR ''/'') p)))
      else (case p of [] \<Rightarrow> None | d # p' \<Rightarrow> if c = d then match_path t p' else None))"
  by pat_completeness auto
termination
  by (relation "measure (\<lambda>(t, p). length t)")
    (auto simp: less_Suc_eq_le intro: le_trans [OF diff_le_self length_dropWhile_le])

declare match_path.simps [simp del]

text \<open>
  The router takes the first route whose path and method match. Without one, a route whose
  path alone matches answers 405; without that, a path other than \<^verbatim>\<open>/\<close> that matches once
  its trailing slashes are removed, or one is added, is redirected there; anything else is
  not found.
\<close>

datatype routing = Handled handler "string list" | Method_not_allowed | Redirect string | Not_found

definition full_match :: "http_method \<Rightarrow> string \<Rightarrow> route \<Rightarrow> (handler \<times> string list) option" where
  "full_match m p r =
     (case match_path (route_path r) p of
        None \<Rightarrow> None
      | Some ps \<Rightarrow> if m \<in> set (route_methods r) then Some (route_endpoint r, ps) else None)"

definition path_match :: "string \<Rightarrow> route \<Rightarrow> bool" where
  "path_match p r = (match_path (route_path r) p \<noteq> None)"

definition toggle_slash :: "string \<Rightarrow> string" where
  "toggle_slash p =
     (if p \<noteq> [] \<and> last p = CHR ''/'' then rev (dropWhile (\<lambda>x. x = CHR ''/'') (rev p))
      else p @ ''/'')"

definition resolve :: "route list \<Rightarrow> http_method \<Rightarrow> string \<Rightarrow> routing" where
  "resolve rs m p =
     (case List.map_filter (full_match m p) rs of
        (h, ps) # _ \<Rightarrow> Handled h ps
      | [] \<Rightarrow>
          if list_ex (path_match p) rs then Method_not_allowed
          else if p \<noteq> ''/'' \<and> list_ex (path_match (toggle_slash p)) rs
            then Redirect (toggle_slash p)
          else Not_found)"

text \<open>
  What a handler does with the values of the path parameters; \<^verbatim>\<open>log_owie\<close> takes the
  first, its \<^verbatim>\<open>body_part\<close>.
\<close>

definition run_handler ::
  "settings \<Rightarrow> env \<Rightarrow> handler \<Rightarrow> string list \<Rightarrow> world \<Rightarrow> (exn + reply) \<times> world" where
  "run_handler s e h ps w =
     (case h of
        Openapi_json \<Rightarrow> (Inr (Page ''openapi.json''), w)
      | Swagger_ui \<Rightarrow> (Inr (Page ''docs''), w)
      | Swagger_ui_redirect \<Rightarrow> (Inr (Page ''oauth2-redirect''), w)
      | Redoc \<Rightarrow> (Inr (Page ''redoc''), w)
      | Home \<Rightarrow> (Inr home, w)
      | Log_owie \<Rightarrow>
          (case ps of
             bp # _ \<Rightarrow> log_owie s e bp w
           | [] \<Rightarrow> (Inl (TypeError ''missing path parameter''), w)))"

section \<open>Observations on a run\<close>

text \<open>The rows of \<^verbatim>\<open>owie_logs\<close> in a database file; none when the file or the table is absent.\<close>

definition owie_rows :: "db_file \<Rightarrow> owie_row list" where
  "owie_rows f = (case tables (connect f) owie_logs of None \<Rightarrow> [] | Some rs \<Rightarrow> rs)"

text \<open>The names of the tables of a database, \<^verbatim>\<open>sqlite_sequence\<close> among them when it exists.\<close>

definition table_names :: "database \<Rightarrow> string set" where
  "table_names d =
     dom (tables d) \<union> (case sequence d of None \<Rightarrow> {} | Some m \<Rightarrow> {sqlite_sequence})"

text \<open>
  The row that an INSERT of a reading adds under the id \<open>n\<close>, and \<^verbatim>\<open>sqlite_sequence\<close> after it.
\<close>

definition new_row :: "env \<Rightarrow> int \<Rightarrow> string \<Rightarrow> reading \<Rightarrow> owie_row" where
  "new_row e n bp v =
     \<lparr>row_id = n,
      date_time = store e Integer_affinity (as_bound (v_date_time v)),
      body_part = PStr bp,
      temperature = store e Real_affinity (as_bound (v_temperature v)),
      pressure = store e Real_affinity (as_bound (v_pressure v)),
      humidity = store e Real_affinity (as_bound (v_humidity v)),
      precipitation = store e Real_affinity (as_bound (v_precipitation v)),
      uv_index = store e Real_affinity (as_bound (v_uv_index v)),
      weather_id = store e Integer_affinity (as_bound (v_weather_id v)),
      weather_main = store e Text_affinity (as_bound (v_weather_main v)),
      weather_description = store e Text_affinity (as_bound (v_weather_description v))\<rparr>"

definition sequence_with :: "database \<Rightarrow> int \<Rightarrow> (string \<rightharpoonup> int) option" where
  "sequence_with d n = Some ((case sequence d of None \<Rightarrow> Map.empty | Some m \<Rightarrow> m)(owie_logs \<mapsto> n))"

text \<open>What the \<^verbatim>\<open>except httpx.RequestError\<close> clause catches.\<close>

definition caught :: "exn + pyval \<Rightarrow> bool" where
  "caught r = (case r of Inl (RequestError m) \<Rightarrow> True | _ \<Rightarrow> False)"

text \<open>
  The world after a fetch that issued \<open>n\<close> GETs and slept \<open>k\<close> times: the i-th sleep is
  \<open>2 ^ i\<close> seconds plus the i-th value drawn by \<^verbatim>\<open>random.uniform(0, 0.5)\<close>.
\<close>

definition after_fetch :: "env \<Rightarrow> request \<Rightarrow> world \<Rightarrow> nat \<Rightarrow> nat \<Rightarrow> world" where
  "after_fetch e rq w n k =
     w\<lparr>requests := requests w @ replicate n rq, draws := draws w + k,
       slept := slept w @ map (\<lambda>i. 2 ^ i + uniform e (draws w + i) 0 (1 / 2)) [0..<k]\<rparr>"


text \<open>
  The payload's \<^verbatim>\<open>current.a.b\<close>: the entry \<open>b\<close> of the dict at \<open>a\<close>, when both are there.
\<close>

definition field :: "(string \<times> pyval) list \<Rightarrow> string \<Rightarrow> string \<Rightarrow> pyval option" where
  "field c a b = (case map_of c a of Some (PDict d) \<Rightarrow> map_of d b | _ \<Rightarrow> None)"

text \<open>
  Python's \<^verbatim>\<open>==\<close> on the values a row can hold: numbers (a bool is 0 or 1) are equal when
  their values are, anything else when it is the same.
\<close>

fun number :: "pyval \<Rightarrow> real option" where
  "number (PBool b) = Some (if b then 1 else 0)"
| "number (PInt i) = Some (of_int i)"
| "number (PFloat x) = Some x"
| "number v = None"

definition same_value :: "pyval \<Rightarrow> pyval \<Rightarrow> bool" where
  "same_value a b =
     (case (number a, number b) of
        (Some x, Some y) \<Rightarrow> x = y
      | (None, None) \<Rightarrow> a = b
      | _ \<Rightarrow> False)"

text \<open>
  A JSON number that a REAL column holds without rounding, a JSON number, a JSON string.
\<close>

definition exact_real :: "pyval \<Rightarrow> bool" where
  "exact_real v = (case v of PFloat x \<Rightarrow> True | PInt i \<Rightarrow> \<bar>i\<bar> < 2 ^ 53 | _ \<Rightarrow> False)"

definition is_number :: "pyval \<Rightarrow> bool" where
  "is_number v = (case v of PFloat x \<Rightarrow> True | PInt i \<Rightarrow> True | _ \<Rightarrow> False)"

definition is_text :: "pyval \<Rightarrow> bool" where
  "is_text v = (case v of PStr s \<Rightarrow> True | _ \<Rightarrow> False)"

text \<open>Sample environments and the world of a process that has done nothing yet.\<close>

definition flaky :: env where
  "flaky = \<lparr>http = (\<lambda>n rq. if n < 2 then Raised (RequestError ''timed out'')
                      else Returned \<lparr>status_code = 200, json = Inr (PDict [(''current'', PDict [])])\<rparr>),
            uniform = (\<lambda>n a b. b / 2), makedirs_error = None, open_error = None,
            commit_error = None, numeric_text = (\<lambda>t. None), real_text = (\<lambda>x. [])\<rparr>"

definition offline :: env where
  "offline = \<lparr>http = (\<lambda>n rq. Raised (RequestError ''connection refused'')),
            uniform = (\<lambda>n a b. a), makedirs_error = None, open_error = None,
            commit_error = None, numeric_text = (\<lambda>t. None), real_text = (\<lambda>x. [])\<rparr>"

definition fresh :: world where
  "fresh = \<lparr>requests = [], slept = [], draws = 0, db = Missing\<rparr>"

definition throttled :: env where
  "throttled = \<lparr>http = (\<lambda>n rq. if n < 1 then Raised (RequestError ''timed out'')
                      else Returned \<lparr>status_code = 429, json = Inr PNone\<rparr>),
            uniform = (\<lambda>n a b. b), makedirs_error = None, open_error = None,
            commit_error = None, numeric_text = (\<lambda>t. None), real_text = (\<lambda>x. [])\<rparr>"

text \<open>Sample payloads, an environment that answers every GET with a payload, and settings.\<close>

definition clear_sky :: pyval where
  "clear_sky =
     PDict [(''current'',
       PDict [(''dt'', PInt 1700000000), (''temp'', PFloat 70), (''pressure'', PInt 1012),
              (''humidity'', PInt 40), (''uvi'', PFloat (3 / 2)),
              (''weather'', PList [PDict [(''id'', PInt 800), (''main'', PStr ''Clear''),
                                          (''description'', PStr ''clear sky'')]])])]"

definition light_rain :: pyval where
  "light_rain =
     PDict [(''current'',
       PDict [(''dt'', PInt 1700000000), (''temp'', PFloat 70), (''pressure'', PInt 1012),
              (''humidity'', PInt 40), (''uvi'', PFloat (3 / 2)),
              (''rain'', PDict [(''1h'', PFloat (1 / 4))]),
              (''weather'', PList [PDict [(''id'', PInt 500), (''main'', PStr ''Rain''),
                                          (''description'', PStr ''light rain'')]])])]"

definition numbered_main :: pyval where
  "numbered_main =
     PDict [(''current'',
       PDict [(''dt'', PInt 1700000000), (''temp'', PFloat 70), (''pressure'', PInt 1012),
              (''humidity'', PInt 40), (''uvi'', PFloat (3 / 2)),
              (''weather'', PList [PDict [(''id'', PInt 800), (''main'', PInt 5),
                                          (''description'', PStr ''clear sky'')]])])]"

definition no_weather_entry :: pyval where
  "no_weather_entry =
     PDict [(''current'',
       PDict [(''dt'', PInt 1700000000), (''temp'', PFloat 70), (''pressure'', PInt 1012),
              (''humidity'', PInt 40), (''uvi'', PFloat (3 / 2)),
              (''weather'', PList [])])]"

definition no_weather_key :: pyval where
  "no_weather_key =
     PDict [(''current'',
       PDict [(''dt'', PInt 1700000000), (''temp'', PFloat 70), (''pressure'', PInt 1012),
              (''humidity'', PInt 40), (''uvi'', PFloat (3 / 2))])]"

definition answering :: "pyval \<Rightarrow> env" where
  "answering payload =
     \<lparr>http = (\<lambda>n rq. Returned \<lparr>status_code = 200, json = Inr payload\<rparr>),
      uniform = (\<lambda>n a b. a), makedirs_error = None, open_error = None, commit_error = None,
      numeric_text = (\<lambda>t. None), real_text = (\<lambda>x. [])\<rparr>"

definition berlin :: settings where
  "berlin = \<lparr>ow_api_key = ''key'', db_path = ''data/data.db'', lat = 52, lon = 13\<rparr>"

definition equator :: settings where
  "equator = \<lparr>ow_api_key = ''key'', db_path = ''data/data.db'', lat = 0, lon = 13\<rparr>"

definition stored_row :: "pyval \<Rightarrow> pyval \<Rightarrow> pyval \<Rightarrow> pyval \<Rightarrow> owie_row" where
  "stored_row prec wid wmain wdesc =
     \<lparr>row_id = 1, date_time = PInt 1700000000, body_part = PStr ''knee'',
      temperature = PFloat 70, pressure = PFloat 1012, humidity = PFloat 40,
      precipitation = prec, uv_index = PFloat (3 / 2), weather_id = wid,
      weather_main = wmain, weather_description = wdesc\<rparr>"

definition one_row :: "owie_row \<Rightarrow> database" where
  "one_row r = \<lparr>tables = [owie_logs \<mapsto> [r]], sequence = Some [owie_logs \<mapsto> 1]\<rparr>"

definition no_row :: database where
  "no_row = \<lparr>tables = [owie_logs \<mapsto> []], sequence = Some Map.empty\<rparr>"

section \<open>The retry loop, step by step\<close>

lemma retry_loop_answer:
  assumes "attempt \<le> retries" and "try_get (http e (length (requests w)) rq) = Inr v"
  shows "retry_loop e rq attempt b w = (Some (Inr v), w\<lparr>requests := requests w @ [rq]\<rparr>)"
  using assms by (subst retry_loop.simps) (simp add: Let_def)

lemma retry_loop_other:
  assumes "attempt \<le> retries" and "try_get (http e (length (requests w)) rq) = Inl x"
    and "\<forall>m. x \<noteq> RequestError m"
  shows "retry_loop e rq attempt b w = (Some (Inl x), w\<lparr>requests := requests w @ [rq]\<rparr>)"
  using assms by (subst retry_loop.simps) (cases x; simp add: Let_def)

lemma retry_loop_last:
  assumes "attempt = retries" and "try_get (http e (length (requests w)) rq) = Inl (RequestError m)"
  shows "retry_loop e rq attempt b w =
    (Some (Inl (RuntimeError (''Request failed after 5 retries: '' @ m))),
     w\<lparr>requests := requests w @ [rq]\<rparr>)"
  using assms by (subst retry_loop.simps) (simp add: Let_def)

lemma retry_loop_again:
  assumes "attempt < retries" and "try_get (http e (length (requests w)) rq) = Inl (RequestError m)"
  shows "retry_loop e rq attempt b w =
    retry_loop e rq (Suc attempt) (b * 2)
      (w\<lparr>requests := requests w @ [rq], draws := Suc (draws w),
         slept := slept w @ [real_of_int b + uniform e (draws w) 0 (1 / 2)]\<rparr>)"
  using assms by (subst retry_loop.simps) (simp add: Let_def)

lemma retry_loop_failures:
  assumes "attempt + k \<le> retries"
    and "\<forall>i<k. \<exists>m. try_get (http e (length (requests w) + i) rq) = Inl (RequestError m)"
  shows "retry_loop e rq attempt b w =
    retry_loop e rq (attempt + k) (b * 2 ^ k)
      (w\<lparr>requests := requests w @ replicate k rq, draws := draws w + k,
         slept := slept w @
           map (\<lambda>i. real_of_int (b * 2 ^ i) + uniform e (draws w + i) 0 (1 / 2)) [0..<k]\<rparr>)"
  using assms
proof (induction k arbitrary: attempt b w)
  case 0
  then show ?case by simp
next
  case (Suc k)
  from Suc.prems(2) obtain m where m: "try_get (http e (length (requests w)) rq) = Inl (RequestError m)"
    by force
  let ?w1 = "w\<lparr>requests := requests w @ [rq], draws := Suc (draws w),
         slept := slept w @ [real_of_int b + uniform e (draws w) 0 (1 / 2)]\<rparr>"
  have step: "retry_loop e rq attempt b w = retry_loop e rq (Suc attempt) (b * 2) ?w1"
    using Suc.prems(1) m by (intro retry_loop_again) auto
  have rest: "\<forall>i<k. \<exists>m. try_get (http e (length (requests ?w1) + i) rq) = Inl (RequestError m)"
    using Suc.prems(2) by (auto dest: spec [where x = "Suc i" for i])
  have "retry_loop e rq (Suc attempt) (b * 2) ?w1 =
    retry_loop e rq (Suc attempt + k) (b * 2 * 2 ^ k)
      (?w1\<lparr>requests := requests ?w1 @ replicate k rq, draws := draws ?w1 + k,
         slept := slept ?w1 @
           map (\<lambda>i. real_of_int (b * 2 * 2 ^ i) + uniform e (draws ?w1 + i) 0 (1 / 2)) [0..<k]\<rparr>)"
    using Suc.prems(1) rest by (intro Suc.IH) auto
  also have "\<dots> = retry_loop e rq (attempt + Suc k) (b * 2 ^ Suc k)
      (w\<lparr>requests := requests w @ replicate (Suc k) rq, draws := draws w + Suc k,
         slept := slept w @
           map (\<lambda>i. real_of_int (b * 2 ^ i) + uniform e (draws w + i) 0 (1 / 2)) [0..<Suc k]\<rparr>)"
    by (simp add: replicate_app_Cons_same upt_rec [of 0 "Suc k"] map_Suc_upt [symmetric] comp_def mult.assoc del: upt_Suc)
  finally show ?case using step by simp
qed

lemma caught_iff: "caught r \<longleftrightarrow> (\<exists>m. r = Inl (RequestError m))"
  by (auto simp: caught_def split: sum.splits exn.splits)

lemma loop_after_failures:
  assumes "k < retries"
    and "\<forall>i<k. caught (try_get (http e (length (requests w) + i) rq))"
  shows "retry_loop e rq 1 1 w =
    retry_loop e rq (Suc k) (2 ^ k) (after_fetch e rq w k k)"
proof -
  have "\<forall>i<k. \<exists>m. try_get (http e (length (requests w) + i) rq) = Inl (RequestError m)"
    using assms(2) by (simp add: caught_iff)
  with assms(1) have "retry_loop e rq 1 1 w =
    retry_loop e rq (1 + k) (1 * 2 ^ k)
      (w\<lparr>requests := requests w @ replicate k rq, draws := draws w + k,
         slept := slept w @
           map (\<lambda>i. real_of_int (1 * 2 ^ i) + uniform e (draws w + i) 0 (1 / 2)) [0..<k]\<rparr>)"
    by (intro retry_loop_failures) auto
  then show ?thesis by (simp add: after_fetch_def)
qed

lemma loop_settled:
  assumes "k < retries"
    and "\<forall>i<k. caught (try_get (http e (length (requests w) + i) rq))"
    and "\<not> caught (try_get (http e (length (requests w) + k) rq))"
  shows "retry_loop e rq 1 1 w =
    (Some (try_get (http e (length (requests w) + k) rq)), after_fetch e rq w (Suc k) k)"
proof -
  let ?w = "after_fetch e rq w k k"
  have len: "length (requests ?w) = length (requests w) + k"
    by (simp add: after_fetch_def)
  have upd: "?w\<lparr>requests := requests ?w @ [rq]\<rparr> = after_fetch e rq w (Suc k) k"
    by (simp add: after_fetch_def replicate_append_same)
  have "retry_loop e rq (Suc k) (2 ^ k) ?w =
    (Some (try_get (http e (length (requests w) + k) rq)), ?w\<lparr>requests := requests ?w @ [rq]\<rparr>)"
  proof (cases "try_get (http e (length (requests w) + k) rq)")
    case (Inl x)
    with assms(3) have "\<forall>m. x \<noteq> RequestError m" by (auto simp: caught_iff)
    with Inl assms(1) show ?thesis
      by (simp add: retry_loop_other [where x = x] len)
  next
    case (Inr v)
    with assms(1) show ?thesis
      by (simp add: retry_loop_answer [where v = v] len)
  qed
  with loop_after_failures [OF assms(1,2)] upd show ?thesis by simp
qed

lemma loop_exhausted:
  assumes "\<forall>i<retries. caught (try_get (http e (length (requests w) + i) rq))"
    and "try_get (http e (length (requests w) + 4) rq) = Inl (RequestError m)"
  shows "retry_loop e rq 1 1 w =
    (Some (Inl (RuntimeError (''Request failed after 5 retries: '' @ m))),
     after_fetch e rq w 5 4)"
proof -
  let ?w = "after_fetch e rq w 4 4"
  have len: "length (requests ?w) = length (requests w) + 4"
    by (simp add: after_fetch_def)
  have upd: "?w\<lparr>requests := requests ?w @ [rq]\<rparr> = after_fetch e rq w 5 4"
    by (simp add: after_fetch_def replicate_append_same eval_nat_numeral)
  have "retry_loop e rq 1 1 w = retry_loop e rq (Suc 4) (2 ^ 4) ?w"
    using assms(1) by (intro loop_after_failures) (auto simp: retries_def)
  also have "\<dots> = (Some (Inl (RuntimeError (''Request failed after 5 retries: '' @ m))),
     ?w\<lparr>requests := requests ?w @ [rq]\<rparr>)"
    using assms(2) by (intro retry_loop_last) (auto simp: retries_def len)
  finally show ?thesis using upd by simp
qed

text \<open>Every run of the loop is one of the two: settled at an attempt, or exhausted.\<close>

lemma loop_cases:
  obtains (settled) k where "k < retries"
      and "\<forall>i<k. caught (try_get (http e (length (requests w) + i) rq))"
      and "\<not> caught (try_get (http e (length (requests w) + k) rq))"
      and "retry_loop e rq 1 1 w =
        (Some (try_get (http e (length (requests w) + k) rq)), after_fetch e rq w (Suc k) k)"
  | (exhausted) m where
      "\<forall>i<retries. caught (try_get (http e (length (requests w) + i) rq))"
      and "retry_loop e rq 1 1 w =
        (Some (Inl (RuntimeError (''Request failed after 5 retries: '' @ m))),
         after_fetch e rq w 5 4)"
proof (cases "\<forall>i<retries. caught (try_get (http e (length (requests w) + i) rq))")
  case True
  then have "caught (try_get (http e (length (requests w) + 4) rq))"
    by (simp add: retries_def)
  then obtain m where "try_get (http e (length (requests w) + 4) rq) = Inl (RequestError m)"
    by (auto simp: caught_iff)
  with True show ?thesis by (intro exhausted [of m] loop_exhausted) auto
next
  case False
  define P where "P i \<longleftrightarrow> i < retries \<and> \<not> caught (try_get (http e (length (requests w) + i) rq))" for i
  from False have "\<exists>i. P i" by (auto simp: P_def)
  then obtain k where k: "P k" and least: "\<forall>i<k. \<not> P i"
    using exists_least_iff [of P] by auto
  from k have 1: "k < retries" and 3: "\<not> caught (try_get (http e (length (requests w) + k) rq))"
    by (auto simp: P_def)
  from least 1 have 2: "\<forall>i<k. caught (try_get (http e (length (requests w) + i) rq))"
    by (auto simp: P_def)
  show ?thesis by (rule settled [OF 1 2 3 loop_settled [OF 1 2 3]])
qed

section \<open>The fetch as a whole\<close>

lemma fetch_settled:
  assumes "api_key \<noteq> []" and "k < 5"
    and "\<forall>i<k. caught (try_get (http e (length (requests w) + i) (weather_request api_key la lo ex)))"
    and "\<not> caught (try_get (http e (length (requests w) + k) (weather_request api_key la lo ex)))"
  shows "get_weather_data e api_key la lo ex w =
    (try_get (http e (length (requests w) + k) (weather_request api_key la lo ex)),
     after_fetch e (weather_request api_key la lo ex) w (Suc k) k)"
  using assms loop_settled [of k e w "weather_request api_key la lo ex"]
  by (simp add: get_weather_data_def retries_def)

lemma fetch_exhausted:
  assumes "api_key \<noteq> []"
    and "\<forall>i<5. caught (try_get (http e (length (requests w) + i) (weather_request api_key la lo ex)))"
    and "try_get (http e (length (requests w) + 4) (weather_request api_key la lo ex)) = Inl (RequestError m)"
  shows "get_weather_data e api_key la lo ex w =
    (Inl (RuntimeError (''Request failed after 5 retries: '' @ m)),
     after_fetch e (weather_request api_key la lo ex) w 5 4)"
  using assms loop_exhausted [of e w "weather_request api_key la lo ex" m]
  by (simp add: get_weather_data_def retries_def)

lemma try_get_Raised [simp]: "try_get (Raised x) = Inl x"
  by (simp add: try_get_def)


lemma try_get_not_200:
  "status_code r \<noteq> 200 \<Longrightarrow> try_get (Returned r) =
     Inl (RuntimeError (if status_code r = 429
       then ''Too many requests - API rate limit reached. Please try again later.''
       else ''Error fetching weather data from the API.''))"
  by (simp add: try_get_def)

lemma caught_simps [simp]:
  "caught (Inl (RequestError m))" "\<not> caught (Inr v)" "\<not> caught (Inl (RuntimeError m))"
  by (simp_all add: caught_def)

lemma requests_after_fetch [simp]: "requests (after_fetch e rq w n k) = requests w @ replicate n rq"
  and slept_after_fetch: "slept (after_fetch e rq w n k) =
     slept w @ map (\<lambda>i. 2 ^ i + uniform e (draws w + i) 0 (1 / 2)) [0..<k]"
  and db_after_fetch [simp]: "db (after_fetch e rq w n k) = db w"
  and draws_after_fetch [simp]: "draws (after_fetch e rq w n k) = draws w + k"
  by (simp_all add: after_fetch_def)

section \<open>The claims about get_weather_data\<close>



text \<open>
  C2. The sleeps of one fetch are \<open>2 ^ i\<close> seconds plus the value that
  \<^verbatim>\<open>random.uniform(0, 0.5)\<close> returned, for \<open>i = 0, 1, 2, 3\<close> in this order, one after each
  failed attempt but the fifth: after \<open>k\<close> failed attempts there are \<open>min k 4\<close> sleeps, and
  with the values of \<^verbatim>\<open>random.uniform(0, 0.5)\<close> in \<open>[0, 1/2]\<close> the i-th sleep lies between
  \<open>2 ^ i\<close> and \<open>2 ^ i + 1/2\<close>.
\<close>

theorem backoff_schedule:
  assumes "api_key \<noteq> []"
    and "rq = weather_request api_key la lo ex"
    and "out = get_weather_data e api_key la lo ex w"
    and "k \<le> 5"
    and "\<forall>i<k. caught (try_get (http e (length (requests w) + i) rq))"
    and "k < 5 \<longrightarrow> \<not> caught (try_get (http e (length (requests w) + k) rq))"
    and "\<forall>n. 0 \<le> uniform e n 0 (1 / 2) \<and> uniform e n 0 (1 / 2) \<le> 1 / 2"
  shows "slept (snd out) =
           slept w @ map (\<lambda>i. 2 ^ i + uniform e (draws w + i) 0 (1 / 2)) [0..<min k 4] \<and>
         length (slept (snd out)) = length (slept w) + min k 4 \<and>
         (\<forall>i<min k 4. 2 ^ i \<le> slept (snd out) ! (length (slept w) + i) \<and>
                      slept (snd out) ! (length (slept w) + i) \<le> 2 ^ i + 1 / 2)"
proof -
  have w': "snd out = after_fetch e rq w (min (Suc k) 5) (min k 4)"
  proof (cases "k < 5")
    case True
    with assms have "out = (try_get (http e (length (requests w) + k) rq), after_fetch e rq w (Suc k) k)"
      by (simp add: fetch_settled)
    with True show ?thesis by (simp add: min_def)
  next
    case False
    with assms(4) have k: "k = 5" by simp
    with assms(5) have "caught (try_get (http e (length (requests w) + 4) rq))" by simp
    then obtain m where "try_get (http e (length (requests w) + 4) rq) = Inl (RequestError m)"
      by (auto simp: caught_iff)
    with assms k have "out = (Inl (RuntimeError (''Request failed after 5 retries: '' @ m)),
      after_fetch e rq w 5 4)"
      by (simp add: fetch_exhausted)
    with k show ?thesis by simp
  qed
  then have 1: "slept (snd out) =
      slept w @ map (\<lambda>i. 2 ^ i + uniform e (draws w + i) 0 (1 / 2)) [0..<min k 4]"
    by (simp add: slept_after_fetch)
  have 2: "2 ^ i \<le> slept (snd out) ! (length (slept w) + i) \<and>
      slept (snd out) ! (length (slept w) + i) \<le> 2 ^ i + 1 / 2" if "i < min k 4" for i
  proof -
    from that have "slept (snd out) ! (length (slept w) + i) = 2 ^ i + uniform e (draws w + i) 0 (1 / 2)"
      by (simp add: 1 nth_append)
    with assms(7) [rule_format, of "draws w + i"] show ?thesis by simp
  qed
  from 1 2 show ?thesis by simp
qed

theorem backoff_schedule_witness:
  "caught (try_get (http offline 0 (weather_request ''key'' 1 2 default_exclude))) \<and>
   caught (try_get (http offline 4 (weather_request ''key'' 1 2 default_exclude))) \<and>
   (\<forall>n. 0 \<le> uniform offline n 0 (1 / 2) \<and> uniform offline n 0 (1 / 2) \<le> 1 / 2) \<and>
   slept (snd (get_weather_data offline ''key'' 1 2 default_exclude fresh)) = [1, 2, 4, 8] \<and>
   caught (try_get (http flaky 1 (weather_request ''key'' 1 2 default_exclude))) \<and>
   \<not> caught (try_get (http flaky 2 (weather_request ''key'' 1 2 default_exclude))) \<and>
   (\<forall>n. 0 \<le> uniform flaky n 0 (1 / 2) \<and> uniform flaky n 0 (1 / 2) \<le> 1 / 2) \<and>
   slept (snd (get_weather_data flaky ''key'' 1 2 default_exclude fresh)) = [5 / 4, 9 / 4]"
  using backoff_schedule [of "''key''" "weather_request ''key'' 1 2 default_exclude" 1 2
      default_exclude "get_weather_data offline ''key'' 1 2 default_exclude fresh" offline fresh 5]
    backoff_schedule [of "''key''" "weather_request ''key'' 1 2 default_exclude" 1 2
      default_exclude "get_weather_data flaky ''key'' 1 2 default_exclude fresh" flaky fresh 2]
  by (simp add: flaky_def offline_def fresh_def try_get_def upt_rec [of 0] upt_rec [of "Suc 0"]
      upt_rec [of 2] upt_rec [of 3] numeral_2_eq_2 [symmetric] del: upt_Suc)




text \<open>
  C9. A response with a status other than 200 is not retried: the attempt that receives it
  raises RuntimeError (with the rate-limit message for 429), no GET follows it and no sleep
  is added to those of the earlier transport failures. An attempt is followed by another
  one only when it raised a RequestError.
\<close>

theorem non_200_not_retried:
  assumes "api_key \<noteq> []"
    and "rq = weather_request api_key la lo ex"
    and "out = get_weather_data e api_key la lo ex w"
  shows "(k < 5 \<and> (\<forall>i<k. caught (try_get (http e (length (requests w) + i) rq))) \<and>
          http e (length (requests w) + k) rq = Returned r \<and> status_code r \<noteq> 200
          \<longrightarrow> fst out = Inl (RuntimeError (if status_code r = 429
                  then ''Too many requests - API rate limit reached. Please try again later.''
                  else ''Error fetching weather data from the API.'')) \<and>
              requests (snd out) = requests w @ replicate (Suc k) rq \<and>
              length (slept (snd out)) = length (slept w) + k) \<and>
         (\<forall>i. length (requests w) + Suc i < length (requests (snd out))
              \<longrightarrow> caught (try_get (http e (length (requests w) + i) rq)))"
proof (intro conjI impI allI; (elim conjE)?)
  assume k: "k < 5" and f: "\<forall>i<k. caught (try_get (http e (length (requests w) + i) rq))"
    and r: "http e (length (requests w) + k) rq = Returned r" "status_code r \<noteq> 200"
  from r have t: "try_get (http e (length (requests w) + k) rq) =
    Inl (RuntimeError (if status_code r = 429
      then ''Too many requests - API rate limit reached. Please try again later.''
      else ''Error fetching weather data from the API.''))"
    by (simp add: try_get_not_200)
  then have "\<not> caught (try_get (http e (length (requests w) + k) rq))" by simp
  with assms k f have "out = (try_get (http e (length (requests w) + k) rq), after_fetch e rq w (Suc k) k)"
    by (simp add: fetch_settled)
  with t show "fst out = Inl (RuntimeError (if status_code r = 429
                  then ''Too many requests - API rate limit reached. Please try again later.''
                  else ''Error fetching weather data from the API.''))"
    "requests (snd out) = requests w @ replicate (Suc k) rq"
    "length (slept (snd out)) = length (slept w) + k"
    by (simp_all add: slept_after_fetch)
next
  fix i
  assume i: "length (requests w) + Suc i < length (requests (snd out))"
  show "caught (try_get (http e (length (requests w) + i) rq))"
  proof (rule loop_cases [of e w rq])
    fix k
    assume "\<forall>i<k. caught (try_get (http e (length (requests w) + i) rq))"
      and "retry_loop e rq 1 1 w =
        (Some (try_get (http e (length (requests w) + k) rq)), after_fetch e rq w (Suc k) k)"
    with assms i show ?thesis by (simp add: get_weather_data_def)
  next
    fix m
    assume "\<forall>i<retries. caught (try_get (http e (length (requests w) + i) rq))"
      and "retry_loop e rq 1 1 w =
        (Some (Inl (RuntimeError (''Request failed after 5 retries: '' @ m))), after_fetch e rq w 5 4)"
    with assms i show ?thesis by (simp add: get_weather_data_def retries_def)
  qed
qed

theorem non_200_not_retried_witness:
  "caught (try_get (http throttled 0 (weather_request ''key'' 1 2 default_exclude))) \<and>
   http throttled 1 (weather_request ''key'' 1 2 default_exclude)
     = Returned \<lparr>status_code = 429, json = Inr PNone\<rparr> \<and>
   fst (get_weather_data throttled ''key'' 1 2 default_exclude fresh) =
     Inl (RuntimeError ''Too many requests - API rate limit reached. Please try again later.'') \<and>
   length (requests (snd (get_weather_data throttled ''key'' 1 2 default_exclude fresh))) = 2 \<and>
   length (slept (snd (get_weather_data throttled ''key'' 1 2 default_exclude fresh))) = 1"
  using non_200_not_retried [of "''key''" "weather_request ''key'' 1 2 default_exclude" 1 2
      default_exclude "get_weather_data throttled ''key'' 1 2 default_exclude fresh" throttled fresh 1
      "\<lparr>status_code = 429, json = Inr PNone\<rparr>"]
  by (simp add: throttled_def fresh_def try_get_def)

section \<open>Reading the payload\<close>

lemma and_then_Inr_iff: "and_then m f = Inr y \<longleftrightarrow> (\<exists>x. m = Inr x \<and> f x = Inr y)"
  by (cases m) auto

lemma py_get_Inr_iff:
  "py_get x k d = Inr v \<longleftrightarrow> (\<exists>kvs. x = PDict kvs \<and> v = (case map_of kvs k of None \<Rightarrow> d | Some u \<Rightarrow> u))"
  by (cases x) auto

lemma py_get_None_default:
  "py_get x k PNone = Inr v \<Longrightarrow> v \<noteq> PNone \<Longrightarrow> \<exists>kvs. x = PDict kvs \<and> map_of kvs k = Some v"
  by (auto simp: py_get_Inr_iff split: option.splits)

lemma py_get_dict_Some:
  "py_get (PDict c) k PNone = Inr v \<Longrightarrow> v \<noteq> PNone \<Longrightarrow> map_of c k = Some v"
  by (auto split: option.splits)

lemma py_index0_list: "py_index0 (PList xs) = Inr x \<Longrightarrow> \<exists>rest. xs = x # rest"
  by (cases xs) auto

lemma first_weather_Some:
  assumes "first_weather (PDict c) k = Inr v" and "v \<noteq> PNone"
  shows "\<exists>wd rest. map_of c ''weather'' = Some (PList (PDict wd # rest)) \<and> map_of wd k = Some v"
proof (cases "map_of c ''weather''")
  case None
  with assms show ?thesis by (simp add: first_weather_def)
next
  case (Some ws)
  with assms obtain w0 where w0: "py_index0 ws = Inr w0" "py_get w0 k PNone = Inr v"
    by (auto simp: first_weather_def and_then_Inr_iff)
  from w0(2) assms(2) obtain wd where wd: "w0 = PDict wd" "map_of wd k = Some v"
    by (auto dest: py_get_None_default)
  from w0(1) wd(1) obtain rest where "ws = PList (PDict wd # rest)"
    by (cases ws rule: py_index0.cases) auto
  with Some wd show ?thesis by simp
qed

lemma read_weather_complete:
  assumes "read_weather payload = Inr v" and "\<not> incomplete v"
  shows "\<exists>kvs c wd rest.
     payload = PDict kvs \<and> map_of kvs ''current'' = Some (PDict c) \<and>
     map_of c ''dt'' = Some (v_date_time v) \<and>
     map_of c ''temp'' = Some (v_temperature v) \<and>
     map_of c ''pressure'' = Some (v_pressure v) \<and>
     map_of c ''humidity'' = Some (v_humidity v) \<and>
     map_of c ''uvi'' = Some (v_uv_index v) \<and>
     map_of c ''weather'' = Some (PList (PDict wd # rest)) \<and>
     map_of wd ''id'' = Some (v_weather_id v) \<and>
     map_of wd ''main'' = Some (v_weather_main v) \<and>
     map_of wd ''description'' = Some (v_weather_description v) \<and>
     get_precipitation (PDict c) = Inr (v_precipitation v)"
proof -
  from assms(1) obtain cw hum prec uv wid wmain wdesc temp pres dt where
    cw: "py_get payload ''current'' (PDict []) = Inr cw"
    and g: "py_get cw ''humidity'' PNone = Inr hum" "get_precipitation cw = Inr prec"
      "py_get cw ''uvi'' PNone = Inr uv" "first_weather cw ''id'' = Inr wid"
      "first_weather cw ''main'' = Inr wmain" "first_weather cw ''description'' = Inr wdesc"
      "py_get cw ''temp'' PNone = Inr temp" "py_get cw ''pressure'' PNone = Inr pres"
      "py_get cw ''dt'' PNone = Inr dt"
    and v: "v = \<lparr>v_humidity = hum, v_precipitation = prec, v_uv_index = uv, v_weather_id = wid,
            v_weather_main = wmain, v_weather_description = wdesc, v_temperature = temp,
            v_pressure = pres, v_date_time = dt\<rparr>"
    unfolding read_weather_def and_then_Inr_iff by (elim exE conjE) auto
  from assms(2) v have nn: "hum \<noteq> PNone" "uv \<noteq> PNone" "wid \<noteq> PNone" "wmain \<noteq> PNone"
    "wdesc \<noteq> PNone" "temp \<noteq> PNone" "pres \<noteq> PNone" "dt \<noteq> PNone"
    by (simp_all add: incomplete_def)
  from g(1) nn(1) obtain c where c: "cw = PDict c" "map_of c ''humidity'' = Some hum"
    by (auto dest: py_get_None_default)
  from cw c(1) obtain kvs where kvs: "payload = PDict kvs"
    by (auto simp: py_get_Inr_iff)
  have cur: "map_of kvs ''current'' = Some (PDict c)"
  proof (cases "map_of kvs ''current''")
    case None
    with cw kvs c show ?thesis by simp
  next
    case (Some u)
    with cw kvs c show ?thesis by simp
  qed
  from g(3,7,8,9) c(1) have "py_get (PDict c) ''uvi'' PNone = Inr uv"
    "py_get (PDict c) ''temp'' PNone = Inr temp" "py_get (PDict c) ''pressure'' PNone = Inr pres"
    "py_get (PDict c) ''dt'' PNone = Inr dt"
    by simp_all
  with nn have f: "map_of c ''uvi'' = Some uv" "map_of c ''temp'' = Some temp"
    "map_of c ''pressure'' = Some pres" "map_of c ''dt'' = Some dt"
    by (blast intro: py_get_dict_Some)+
  from first_weather_Some [of c "''id''" wid] g(4) nn(3) c(1)
  obtain wd rest where wd: "map_of c ''weather'' = Some (PList (PDict wd # rest))"
    "map_of wd ''id'' = Some wid" by auto
  from first_weather_Some [of c "''main''" wmain] g(5) nn(4) c(1) wd(1)
  have m: "map_of wd ''main'' = Some wmain" by auto
  from first_weather_Some [of c "''description''" wdesc] g(6) nn(5) c(1) wd(1)
  have d: "map_of wd ''description'' = Some wdesc" by auto
  from kvs cur c f wd m d g(2) v show ?thesis by simp
qed

section \<open>Reading the precipitation\<close>

lemma get_precipitation_field:
  assumes "get_precipitation (PDict c) = Inr p"
  shows "p = (case field c ''rain'' ''1h'' of
                Some x \<Rightarrow> if truthy x then x
                          else (case field c ''snow'' ''1h'' of Some y \<Rightarrow> y | None \<Rightarrow> PFloat 0)
              | None \<Rightarrow> (case field c ''snow'' ''1h'' of Some y \<Rightarrow> y | None \<Rightarrow> PFloat 0))"
proof -
  from assms obtain rain r1 where rain: "py_get (PDict c) ''rain'' (PDict []) = Inr rain"
    and r1: "py_get rain ''1h'' (PFloat 0) = Inr r1"
    and p: "(if truthy r1 then Inr r1
             else and_then (py_get (PDict c) ''snow'' (PDict []))
                    (\<lambda>snow. py_get snow ''1h'' (PFloat 0))) = Inr p"
    unfolding get_precipitation_def and_then_Inr_iff by blast
  from r1 obtain rd where rd: "rain = PDict rd" by (auto simp: py_get_Inr_iff)
  have snow: "p = (case field c ''snow'' ''1h'' of Some y \<Rightarrow> y | None \<Rightarrow> PFloat 0)"
    if "\<not> truthy r1"
  proof -
    from p that obtain snow where s: "py_get (PDict c) ''snow'' (PDict []) = Inr snow"
      and s1: "py_get snow ''1h'' (PFloat 0) = Inr p"
      by (auto simp: and_then_Inr_iff)
    from s1 obtain sd where "snow = PDict sd" by (auto simp: py_get_Inr_iff)
    with s s1 show ?thesis
      by (auto simp: field_def split: option.splits)
  qed
  show ?thesis
  proof (cases "field c ''rain'' ''1h''")
    case None
    with rain r1 rd have "r1 = PFloat 0"
      by (auto simp: field_def split: option.splits pyval.splits)
    with snow None show ?thesis by simp
  next
    case (Some x)
    with rain r1 rd have "r1 = x"
      by (auto simp: field_def split: option.splits pyval.splits)
    with snow p Some show ?thesis by (cases "truthy x") auto
  qed
qed

section \<open>The database operations\<close>

lemma bind_param_Inr: "bind_param x = Inr y \<Longrightarrow> y = as_bound x"
  by (cases x) (auto split: if_splits)

lemma not_null_Inr: "not_null col x = Inr y \<Longrightarrow> y = x"
  by (auto simp: not_null_def split: if_splits)

lemma item_log_weather_data:
  "py_item (log_weather_data v) ''temperature'' = Inr (v_temperature v)"
  "py_item (log_weather_data v) ''pressure'' = Inr (v_pressure v)"
  "py_item (log_weather_data v) ''humidity'' = Inr (v_humidity v)"
  "py_item (log_weather_data v) ''precipitation'' = Inr (v_precipitation v)"
  "py_item (log_weather_data v) ''uv_index'' = Inr (v_uv_index v)"
  "py_item (log_weather_data v) ''weather_id'' = Inr (v_weather_id v)"
  "py_item (log_weather_data v) ''weather_main'' = Inr (v_weather_main v)"
  "py_item (log_weather_data v) ''weather_description'' = Inr (v_weather_description v)"
  by (simp_all add: py_item_def log_weather_data_def)

lemma excess_bits_small: "n < 2 ^ 53 \<Longrightarrow> excess_bits n = 0"
  by (subst excess_bits.simps) simp

lemma nat_to_double_small: "n < 2 ^ 53 \<Longrightarrow> nat_to_double n = n"
  by (simp add: nat_to_double_def excess_bits_small)

lemma int_to_double_small: "\<bar>i\<bar> < 2 ^ 53 \<Longrightarrow> int_to_double i = of_int i"
proof (cases "i < 0")
  case True
  assume "\<bar>i\<bar> < 2 ^ 53"
  with True have "nat (- i) < 2 ^ 53" by (simp add: nat_less_iff)
  with True show ?thesis by (simp add: int_to_double_def nat_to_double_small)
next
  case False
  assume "\<bar>i\<bar> < 2 ^ 53"
  with False have "nat i < 2 ^ 53" by (simp add: nat_less_iff)
  with False show ?thesis by (simp add: int_to_double_def nat_to_double_small)
qed

lemma store_real_exact:
  "exact_real v \<Longrightarrow> same_value (store e Real_affinity (as_bound v)) v"
  by (cases v) (simp_all add: exact_real_def same_value_def int_to_double_small)

lemma store_integer_number:
  "is_number v \<Longrightarrow> same_value (store e Integer_affinity (as_bound v)) v"
  by (cases v) (auto simp: is_number_def same_value_def real_to_integer_def)

lemma store_text: "is_text v \<Longrightarrow> store e Text_affinity (as_bound v) = v"
  by (cases v) (simp_all add: is_text_def)

lemma execute_insert_row:
  assumes "execute_insert e (v_date_time v) bp (log_weather_data v) d = Inr d'"
  shows "\<exists>rs n. tables d owie_logs = Some rs \<and> new_row_id d rs = Inr n \<and>
     d' = d\<lparr>tables := (tables d)(owie_logs \<mapsto> rs @ [new_row e n bp v]),
            sequence := sequence_with d n\<rparr>"
proof -
  from assms obtain rs c_dt c_bp c_temp c_pres c_hum c_prec c_uv c_wid c_wmain c_wdesc n where
    rs: "table_rows d = Inr rs"
    and b: "bind_param (v_date_time v) = Inr c_dt" "bind_param (PStr bp) = Inr c_bp"
      "bind_param (v_temperature v) = Inr c_temp" "bind_param (v_pressure v) = Inr c_pres"
      "bind_param (v_humidity v) = Inr c_hum" "bind_param (v_precipitation v) = Inr c_prec"
      "bind_param (v_uv_index v) = Inr c_uv" "bind_param (v_weather_id v) = Inr c_wid"
      "bind_param (v_weather_main v) = Inr c_wmain"
      "bind_param (v_weather_description v) = Inr c_wdesc"
    and n: "new_row_id d rs = Inr n"
    and d': "d' = d\<lparr>tables := (tables d)(owie_logs \<mapsto> rs @
               [\<lparr>row_id = n,
                 date_time = store e Integer_affinity c_dt,
                 body_part = store e Text_affinity c_bp,
                 temperature = store e Real_affinity c_temp,
                 pressure = store e Real_affinity c_pres,
                 humidity = store e Real_affinity c_hum,
                 precipitation = store e Real_affinity c_prec,
                 uv_index = store e Real_affinity c_uv,
                 weather_id = store e Integer_affinity c_wid,
                 weather_main = store e Text_affinity c_wmain,
                 weather_description = store e Text_affinity c_wdesc\<rparr>]),
              sequence := Some ((case sequence d of None \<Rightarrow> Map.empty | Some m \<Rightarrow> m)
                                  (owie_logs \<mapsto> n))\<rparr>"
    unfolding execute_insert_def item_log_weather_data and_then.simps and_then_Inr_iff
    by (elim exE conjE) auto
  from b have "c_dt = as_bound (v_date_time v)" "c_bp = PStr bp"
    "c_temp = as_bound (v_temperature v)"
    "c_pres = as_bound (v_pressure v)" "c_hum = as_bound (v_humidity v)"
    "c_prec = as_bound (v_precipitation v)"
    "c_uv = as_bound (v_uv_index v)" "c_wid = as_bound (v_weather_id v)"
    "c_wmain = as_bound (v_weather_main v)"
    "c_wdesc = as_bound (v_weather_description v)"
    by (auto dest: bind_param_Inr)
  with d' have "d' = d\<lparr>tables := (tables d)(owie_logs \<mapsto> rs @ [new_row e n bp v]),
            sequence := sequence_with d n\<rparr>"
    by (simp add: new_row_def sequence_with_def)
  moreover from rs have "tables d owie_logs = Some rs"
    by (auto simp: table_rows_def split: option.splits)
  ultimately show ?thesis using n by blast
qed

lemma insert_owie_log_ok:
  assumes "insert_owie_log e (v_date_time v) bp (log_weather_data v) f = (Inr u, f')"
  shows "\<exists>rs n. tables (connect f) owie_logs = Some rs \<and>
     f' = Present ((connect f)\<lparr>tables := (tables (connect f))(owie_logs \<mapsto> rs @ [new_row e n bp v]),
            sequence := sequence_with (connect f) n\<rparr>)"
proof -
  from assms obtain d' where
    "execute_insert e (v_date_time v) bp (log_weather_data v) (connect f) = Inr d'"
    and "f' = Present d'"
    by (auto simp: insert_owie_log_def Let_def split: sum.splits option.splits)
  with execute_insert_row [of e v bp "connect f" d'] show ?thesis by blast
qed

lemma setup_database_ok:
  assumes "setup_database e f = Inr f'"
  shows "f' = Present (create_table_if_not_exists (connect f))"
  using assms
  by (auto simp: setup_database_def ensure_file_def and_then_Inr_iff split: db_file.splits option.splits)

lemma create_table_lookup:
  "tables (create_table_if_not_exists d) owie_logs =
     Some (case tables d owie_logs of None \<Rightarrow> [] | Some rs \<Rightarrow> rs)"
  "n \<noteq> owie_logs \<Longrightarrow> tables (create_table_if_not_exists d) n = tables d n"
  by (auto simp: create_table_if_not_exists_def split: option.splits)

lemma create_table_sequence:
  "sequence d = Some m \<Longrightarrow> sequence (create_table_if_not_exists d) = Some m"
  "tables d owie_logs = None \<Longrightarrow> sequence (create_table_if_not_exists d) \<noteq> None"
  by (auto simp: create_table_if_not_exists_def split: option.splits)

lemma create_table_twice:
  "create_table_if_not_exists (create_table_if_not_exists d) = create_table_if_not_exists d"
  by (auto simp: create_table_if_not_exists_def split: option.splits)

lemma create_table_present:
  "tables d owie_logs = Some rs \<Longrightarrow> create_table_if_not_exists d = d"
  by (simp add: create_table_if_not_exists_def)

lemma table_names_create:
  "table_names (create_table_if_not_exists d) \<subseteq> table_names d \<union> {owie_logs, sqlite_sequence}"
  "table_names d \<subseteq> table_names (create_table_if_not_exists d)"
  "owie_logs \<in> table_names (create_table_if_not_exists d)"
  by (auto simp: create_table_if_not_exists_def table_names_def split: option.splits)

lemma owie_rows_setup: "setup_database e f = Inr f' \<Longrightarrow> owie_rows f' = owie_rows f"
  by (auto dest!: setup_database_ok simp: owie_rows_def create_table_lookup split: option.splits)

lemma setup_database_again:
  assumes "setup_database e f = Inr f'"
  shows "setup_database e' f' = Inr f'"
proof -
  from assms have "f' = Present (create_table_if_not_exists (connect f))"
    by (rule setup_database_ok)
  then show ?thesis
    by (simp add: setup_database_def ensure_file_def create_table_twice)
qed

lemma db_get_weather_data: "db (snd (get_weather_data e api_key la lo ex w)) = db w"
proof (cases "api_key = []")
  case True
  then show ?thesis by (simp add: get_weather_data_def)
next
  case False
  then show ?thesis
    by (rule_tac loop_cases [of e w "weather_request api_key la lo ex"])
      (simp_all add: get_weather_data_def)
qed

lemma log_owie_success:
  assumes "log_owie s e bp w = (Inr rep, w')"
    and "ow_api_key s \<noteq> []" "db_path s \<noteq> []" "lat s \<noteq> 0" "lon s \<noteq> 0"
  shows "\<exists>payload w1 v d1 d2.
     get_weather_data e (ow_api_key s) (lat s) (lon s) default_exclude w = (Inr payload, w1) \<and>
     read_weather payload = Inr v \<and> \<not> incomplete v \<and>
     setup_database e (db w1) = Inr d1 \<and>
     insert_owie_log e (v_date_time v) bp (log_weather_data v) d1 = (Inr (), d2) \<and>
     w' = w1\<lparr>db := d2\<rparr> \<and> rep = success_reply bp v"
  using assms
  by (auto simp: log_owie_def split: prod.splits sum.splits if_splits)

section \<open>Sample runs\<close>

lemma fetch_answering:
  "get_weather_data (answering payload) ''key'' la lo ex fresh =
     (Inr payload, fresh\<lparr>requests := [weather_request ''key'' la lo ex]\<rparr>)"
  using fetch_settled [of "''key''" 0 "answering payload" fresh la lo ex]
  by (simp add: answering_def try_get_def fresh_def after_fetch_def)

lemma setup_fresh: "setup_database (answering payload) Missing = Inr (Present no_row)"
  by (simp add: setup_database_def ensure_file_def create_table_if_not_exists_def answering_def
      empty_database_def no_row_def)

lemma new_row_id_first: "new_row_id no_row [] = Inr 1"
  by (simp add: new_row_id_def largest_id_def no_row_def)

lemma log_owie_first_row:
  assumes "read_weather payload = Inr v" and "\<not> incomplete v"
    and "execute_insert (answering payload) (v_date_time v) ''knee'' (log_weather_data v) no_row =
      Inr (one_row r)"
  shows "log_owie berlin (answering payload) ''knee'' fresh =
     (Inr (success_reply ''knee'' v),
      fresh\<lparr>requests := [weather_request ''key'' 52 13 default_exclude],
            db := Present (one_row r)\<rparr>)"
proof -
  have ins: "insert_owie_log (answering payload) (v_date_time v) ''knee'' (log_weather_data v)
      (Present no_row) = (Inr (), Present (one_row r))"
    by (simp add: insert_owie_log_def Let_def assms(3)) (simp add: answering_def)
  show ?thesis
    by (simp add: log_owie_def berlin_def fetch_answering assms(1,2))
      (simp add: fresh_def setup_fresh ins)
qed

lemma insert_first_row:
  assumes "\<not> incomplete v"
    and "bind_param (v_date_time v) = Inr (v_date_time v)"
    and "bind_param (v_temperature v) = Inr (v_temperature v)"
    and "bind_param (v_pressure v) = Inr (v_pressure v)"
    and "bind_param (v_humidity v) = Inr (v_humidity v)"
    and "bind_param (v_precipitation v) = Inr (v_precipitation v)"
    and "bind_param (v_uv_index v) = Inr (v_uv_index v)"
    and "bind_param (v_weather_id v) = Inr (v_weather_id v)"
    and "bind_param (v_weather_main v) = Inr (v_weather_main v)"
    and "bind_param (v_weather_description v) = Inr (v_weather_description v)"
    and "v_precipitation v \<noteq> PNone"
  shows "execute_insert e (v_date_time v) bp (log_weather_data v) no_row =
     Inr (one_row
       \<lparr>row_id = 1,
        date_time = store e Integer_affinity (v_date_time v),
        body_part = PStr bp,
        temperature = store e Real_affinity (v_temperature v),
        pressure = store e Real_affinity (v_pressure v),
        humidity = store e Real_affinity (v_humidity v),
        precipitation = store e Real_affinity (v_precipitation v),
        uv_index = store e Real_affinity (v_uv_index v),
        weather_id = store e Integer_affinity (v_weather_id v),
        weather_main = store e Text_affinity (v_weather_main v),
        weather_description = store e Text_affinity (v_weather_description v)\<rparr>)"
proof -
  have rs: "table_rows no_row = Inr []" by (simp add: table_rows_def no_row_def)
  from assms(1,11) have nn: "not_null c (v_date_time v) = Inr (v_date_time v)"
    "not_null c (v_humidity v) = Inr (v_humidity v)"
    "not_null c (v_precipitation v) = Inr (v_precipitation v)"
    "not_null c (v_uv_index v) = Inr (v_uv_index v)"
    "not_null c (v_temperature v) = Inr (v_temperature v)"
    "not_null c (v_pressure v) = Inr (v_pressure v)" for c
    by (simp_all add: not_null_def incomplete_def)
  show ?thesis
    unfolding execute_insert_def item_log_weather_data and_then.simps rs assms(2-10) nn
      new_row_id_first
    by (simp add: not_null_def no_row_def one_row_def)
qed

lemma read_clear_sky:
  "read_weather clear_sky =
     Inr \<lparr>v_humidity = PInt 40, v_precipitation = PFloat 0, v_uv_index = PFloat (3 / 2),
          v_weather_id = PInt 800, v_weather_main = PStr ''Clear'',
          v_weather_description = PStr ''clear sky'', v_temperature = PFloat 70,
          v_pressure = PInt 1012, v_date_time = PInt 1700000000\<rparr>"
  by (simp add: read_weather_def clear_sky_def get_precipitation_def first_weather_def)

lemma read_light_rain:
  "read_weather light_rain =
     Inr \<lparr>v_humidity = PInt 40, v_precipitation = PFloat (1 / 4), v_uv_index = PFloat (3 / 2),
          v_weather_id = PInt 500, v_weather_main = PStr ''Rain'',
          v_weather_description = PStr ''light rain'', v_temperature = PFloat 70,
          v_pressure = PInt 1012, v_date_time = PInt 1700000000\<rparr>"
  by (simp add: read_weather_def light_rain_def get_precipitation_def first_weather_def)

lemma read_numbered_main:
  "read_weather numbered_main =
     Inr \<lparr>v_humidity = PInt 40, v_precipitation = PFloat 0, v_uv_index = PFloat (3 / 2),
          v_weather_id = PInt 800, v_weather_main = PInt 5,
          v_weather_description = PStr ''clear sky'', v_temperature = PFloat 70,
          v_pressure = PInt 1012, v_date_time = PInt 1700000000\<rparr>"
  by (simp add: read_weather_def numbered_main_def get_precipitation_def first_weather_def)

lemma int_text_5: "int_text 5 = ''5''"
  by (simp add: int_text_def nat_text.simps [of 5])

lemma log_owie_sample:
  assumes "read_weather payload = Inr v" and "\<not> incomplete v"
    and "bind_param (v_date_time v) = Inr (v_date_time v)"
    and "bind_param (v_temperature v) = Inr (v_temperature v)"
    and "bind_param (v_pressure v) = Inr (v_pressure v)"
    and "bind_param (v_humidity v) = Inr (v_humidity v)"
    and "bind_param (v_precipitation v) = Inr (v_precipitation v)"
    and "bind_param (v_uv_index v) = Inr (v_uv_index v)"
    and "bind_param (v_weather_id v) = Inr (v_weather_id v)"
    and "bind_param (v_weather_main v) = Inr (v_weather_main v)"
    and "bind_param (v_weather_description v) = Inr (v_weather_description v)"
    and "v_precipitation v \<noteq> PNone"
  shows "log_owie berlin (answering payload) ''knee'' fresh =
     (Inr (success_reply ''knee'' v),
      fresh\<lparr>requests := [weather_request ''key'' 52 13 default_exclude],
            db := Present (one_row
       \<lparr>row_id = 1,
        date_time = store (answering payload) Integer_affinity (v_date_time v),
        body_part = PStr ''knee'',
        temperature = store (answering payload) Real_affinity (v_temperature v),
        pressure = store (answering payload) Real_affinity (v_pressure v),
        humidity = store (answering payload) Real_affinity (v_humidity v),
        precipitation = store (answering payload) Real_affinity (v_precipitation v),
        uv_index = store (answering payload) Real_affinity (v_uv_index v),
        weather_id = store (answering payload) Integer_affinity (v_weather_id v),
        weather_main = store (answering payload) Text_affinity (v_weather_main v),
        weather_description =
          store (answering payload) Text_affinity (v_weather_description v)\<rparr>)\<rparr>)"
  by (rule log_owie_first_row [OF assms(1,2) insert_first_row [OF assms(2-12)]])

lemma log_owie_clear_sky:
  "log_owie berlin (answering clear_sky) ''knee'' fresh =
     (Inr (Reply [(''message'', PStr ''Logged owie details successfully''),
                  (''body_part'', PStr ''knee''), (''temperature'', PFloat 70),
                  (''pressure'', PInt 1012)]),
      fresh\<lparr>requests := [weather_request ''key'' 52 13 default_exclude],
            db := Present (one_row (stored_row (PFloat 0) (PInt 800) (PStr ''Clear'')
                                      (PStr ''clear sky'')))\<rparr>)"
  using log_owie_sample [OF read_clear_sky]
  by (simp add: incomplete_def int_to_double_small stored_row_def success_reply_def)

lemma log_owie_light_rain:
  "log_owie berlin (answering light_rain) ''knee'' fresh =
     (Inr (Reply [(''message'', PStr ''Logged owie details successfully''),
                  (''body_part'', PStr ''knee''), (''temperature'', PFloat 70),
                  (''pressure'', PInt 1012)]),
      fresh\<lparr>requests := [weather_request ''key'' 52 13 default_exclude],
            db := Present (one_row (stored_row (PFloat (1 / 4)) (PInt 500) (PStr ''Rain'')
                                      (PStr ''light rain'')))\<rparr>)"
  using log_owie_sample [OF read_light_rain]
  by (simp add: incomplete_def int_to_double_small stored_row_def success_reply_def)

lemma log_owie_numbered_main:
  "log_owie berlin (answering numbered_main) ''knee'' fresh =
     (Inr (Reply [(''message'', PStr ''Logged owie details successfully''),
                  (''body_part'', PStr ''knee''), (''temperature'', PFloat 70),
                  (''pressure'', PInt 1012)]),
      fresh\<lparr>requests := [weather_request ''key'' 52 13 default_exclude],
            db := Present (one_row (stored_row (PFloat 0) (PInt 800) (PStr ''5'')
                                      (PStr ''clear sky'')))\<rparr>)"
  using log_owie_sample [OF read_numbered_main]
  by (simp add: incomplete_def int_to_double_small stored_row_def success_reply_def int_text_5)

lemma owie_rows_one_row: "owie_rows (Present (one_row r)) = [r]"
  by (simp add: owie_rows_def one_row_def)

lemma log_owie_no_entry:
  "log_owie berlin (answering no_weather_entry) ''knee'' fresh =
     (Inl (IndexError ''list index out of range''),
      fresh\<lparr>requests := [weather_request ''key'' 52 13 default_exclude]\<rparr>)"
proof -
  have "read_weather no_weather_entry = Inl (IndexError ''list index out of range'')"
    by (simp add: read_weather_def no_weather_entry_def get_precipitation_def first_weather_def)
  then show ?thesis
    by (simp add: log_owie_def berlin_def fetch_answering)
qed

lemma log_owie_no_key:
  "log_owie berlin (answering no_weather_key) ''knee'' fresh =
     (Inl (RuntimeError ''Incomplete weather data received from the API.''),
      fresh\<lparr>requests := [weather_request ''key'' 52 13 default_exclude]\<rparr>)"
proof -
  have "read_weather no_weather_key =
     Inr \<lparr>v_humidity = PInt 40, v_precipitation = PFloat 0, v_uv_index = PFloat (3 / 2),
          v_weather_id = PNone, v_weather_main = PNone,
          v_weather_description = PNone, v_temperature = PFloat 70,
          v_pressure = PInt 1012, v_date_time = PInt 1700000000\<rparr>"
    by (simp add: read_weather_def no_weather_key_def get_precipitation_def first_weather_def)
  then show ?thesis
    by (simp add: log_owie_def berlin_def fetch_answering incomplete_def)
qed

section \<open>The claims about log_owie\<close>

text \<open>
  C3, as stated: every column of the inserted row equals the value of the payload. A
  payload whose first weather entry has the number 5 as its \<^verbatim>\<open>main\<close> is logged, and the TEXT
  column \<^verbatim>\<open>weather_main\<close> holds the text \<^verbatim>\<open>'5'\<close>, which is not equal to 5.
\<close>

theorem stored_value_counterexample:
  "fst (log_owie berlin (answering numbered_main) ''knee'' fresh) =
     Inr (Reply [(''message'', PStr ''Logged owie details successfully''),
                 (''body_part'', PStr ''knee''), (''temperature'', PFloat 70),
                 (''pressure'', PInt 1012)]) \<and>
   field [(''weather'', PDict [(''main'', PInt 5)])] ''weather'' ''main'' = Some (PInt 5) \<and>
   map weather_main
     (owie_rows (db (snd (log_owie berlin (answering numbered_main) ''knee'' fresh)))) =
     [PStr ''5''] \<and>
   \<not> same_value (PStr ''5'') (PInt 5)"
  by (simp add: log_owie_numbered_main owie_rows_one_row stored_row_def same_value_def field_def)

text \<open>
  C3, amended. A request that \<^verbatim>\<open>log_owie\<close> handles to the end, with the settings present,
  adds exactly one row at the end of \<^verbatim>\<open>owie_logs\<close>. Its body part is the path parameter.
  Every other column holds the value of the payload as SQLite stores it under the affinity
  of the column: \<^verbatim>\<open>current.dt\<close> and the id of the first entry of \<^verbatim>\<open>current.weather\<close> as
  INTEGER, that entry's main and description as TEXT, \<^verbatim>\<open>current.temp\<close>, \<^verbatim>\<open>pressure\<close>,
  \<^verbatim>\<open>humidity\<close>, \<^verbatim>\<open>uvi\<close> and the precipitation as REAL, where the precipitation is
  \<^verbatim>\<open>current.rain.1h\<close> when that is present and truthy, otherwise \<^verbatim>\<open>current.snow.1h\<close> when
  that is present, otherwise 0.0. A stored value is equal to the payload's, as Python compares
  them, when the payload's value is a number for an INTEGER column, a float or an integer
  below \<open>2 ^ 53\<close> in magnitude for a REAL column, and the same when it is a string for a TEXT
  column.
\<close>

theorem log_owie_inserts_one_row:
  assumes "log_owie s e bp w = (Inr rep, w')"
    and "ow_api_key s \<noteq> []" "db_path s \<noteq> []" "lat s \<noteq> 0" "lon s \<noteq> 0"
  shows "\<exists>r kvs c wd rest dt temp pres hum uvi wid wmain wdesc prec.
     owie_rows (db w') = owie_rows (db w) @ [r] \<and>
     fst (get_weather_data e (ow_api_key s) (lat s) (lon s) default_exclude w) = Inr (PDict kvs) \<and>
     map_of kvs ''current'' = Some (PDict c) \<and>
     map_of c ''weather'' = Some (PList (PDict wd # rest)) \<and>
     map_of c ''dt'' = Some dt \<and>
     map_of c ''temp'' = Some temp \<and>
     map_of c ''pressure'' = Some pres \<and>
     map_of c ''humidity'' = Some hum \<and>
     map_of c ''uvi'' = Some uvi \<and>
     map_of wd ''id'' = Some wid \<and>
     map_of wd ''main'' = Some wmain \<and>
     map_of wd ''description'' = Some wdesc \<and>
     prec = (case field c ''rain'' ''1h'' of
               Some x \<Rightarrow> if truthy x then x
                         else (case field c ''snow'' ''1h'' of Some y \<Rightarrow> y | None \<Rightarrow> PFloat 0)
             | None \<Rightarrow> (case field c ''snow'' ''1h'' of Some y \<Rightarrow> y | None \<Rightarrow> PFloat 0)) \<and>
     body_part r = PStr bp \<and>
     date_time r = store e Integer_affinity (as_bound dt) \<and>
     temperature r = store e Real_affinity (as_bound temp) \<and>
     pressure r = store e Real_affinity (as_bound pres) \<and>
     humidity r = store e Real_affinity (as_bound hum) \<and>
     precipitation r = store e Real_affinity (as_bound prec) \<and>
     uv_index r = store e Real_affinity (as_bound uvi) \<and>
     weather_id r = store e Integer_affinity (as_bound wid) \<and>
     weather_main r = store e Text_affinity (as_bound wmain) \<and>
     weather_description r = store e Text_affinity (as_bound wdesc) \<and>
     (is_number dt \<longrightarrow> same_value (date_time r) dt) \<and>
     (exact_real temp \<longrightarrow> same_value (temperature r) temp) \<and>
     (exact_real pres \<longrightarrow> same_value (pressure r) pres) \<and>
     (exact_real hum \<longrightarrow> same_value (humidity r) hum) \<and>
     (exact_real prec \<longrightarrow> same_value (precipitation r) prec) \<and>
     (exact_real uvi \<longrightarrow> same_value (uv_index r) uvi) \<and>
     (is_number wid \<longrightarrow> same_value (weather_id r) wid) \<and>
     (is_text wmain \<longrightarrow> weather_main r = wmain) \<and>
     (is_text wdesc \<longrightarrow> weather_description r = wdesc)"
proof -
  from log_owie_success [OF assms] obtain payload w1 v d1 d2 where
    fetch: "get_weather_data e (ow_api_key s) (lat s) (lon s) default_exclude w = (Inr payload, w1)"
    and rd: "read_weather payload = Inr v" "\<not> incomplete v"
    and su: "setup_database e (db w1) = Inr d1"
    and ins: "insert_owie_log e (v_date_time v) bp (log_weather_data v) d1 = (Inr (), d2)"
    and w': "w' = w1\<lparr>db := d2\<rparr>"
    by blast
  from fetch db_get_weather_data [of e "ow_api_key s" "lat s" "lon s" default_exclude w]
  have dbw: "db w1 = db w" by simp
  from insert_owie_log_ok [OF ins] obtain rs n where
    rs: "tables (connect d1) owie_logs = Some rs"
    and d2: "d2 = Present ((connect d1)\<lparr>tables := (tables (connect d1))(owie_logs \<mapsto> rs @ [new_row e n bp v]),
            sequence := sequence_with (connect d1) n\<rparr>)"
    by blast
  from rs have "owie_rows d1 = rs" by (simp add: owie_rows_def)
  with owie_rows_setup [OF su] dbw have "rs = owie_rows (db w)" by simp
  with d2 w' have 1: "owie_rows (db w') = owie_rows (db w) @ [new_row e n bp v]"
    by (simp add: owie_rows_def)
  from read_weather_complete [OF rd] obtain kvs c wd rest where p:
    "payload = PDict kvs" "map_of kvs ''current'' = Some (PDict c)"
     "map_of c ''dt'' = Some (v_date_time v)"
     "map_of c ''temp'' = Some (v_temperature v)"
     "map_of c ''pressure'' = Some (v_pressure v)"
     "map_of c ''humidity'' = Some (v_humidity v)"
     "map_of c ''uvi'' = Some (v_uv_index v)"
     "map_of c ''weather'' = Some (PList (PDict wd # rest))"
     "map_of wd ''id'' = Some (v_weather_id v)"
     "map_of wd ''main'' = Some (v_weather_main v)"
     "map_of wd ''description'' = Some (v_weather_description v)"
     "get_precipitation (PDict c) = Inr (v_precipitation v)"
    by blast
  note prec = get_precipitation_field [OF p(12)]
  show ?thesis
    apply (rule exI [of _ "new_row e n bp v"])
    apply (rule exI [of _ kvs])
    apply (rule exI [of _ c])
    apply (rule exI [of _ wd])
    apply (rule exI [of _ rest])
    apply (rule exI [of _ "v_date_time v"])
    apply (rule exI [of _ "v_temperature v"])
    apply (rule exI [of _ "v_pressure v"])
    apply (rule exI [of _ "v_humidity v"])
    apply (rule exI [of _ "v_uv_index v"])
    apply (rule exI [of _ "v_weather_id v"])
    apply (rule exI [of _ "v_weather_main v"])
    apply (rule exI [of _ "v_weather_description v"])
    apply (rule exI [of _ "v_precipitation v"])
    apply (intro conjI impI)
    using 1 fetch p(1-11) prec
    by (simp_all add: new_row_def store_real_exact store_integer_number store_text)
qed

theorem log_owie_inserts_one_row_witness:
  "log_owie berlin (answering light_rain) ''knee'' fresh =
     (Inr (Reply [(''message'', PStr ''Logged owie details successfully''),
                  (''body_part'', PStr ''knee''), (''temperature'', PFloat 70),
                  (''pressure'', PInt 1012)]),
      fresh\<lparr>requests := [weather_request ''key'' 52 13 default_exclude],
            db := Present (one_row (stored_row (PFloat (1 / 4)) (PInt 500) (PStr ''Rain'')
                                      (PStr ''light rain'')))\<rparr>) \<and>
   ow_api_key berlin \<noteq> [] \<and> db_path berlin \<noteq> [] \<and> lat berlin \<noteq> 0 \<and> lon berlin \<noteq> 0 \<and>
   field [(''rain'', PDict [(''1h'', PFloat (1 / 4))])] ''rain'' ''1h'' = Some (PFloat (1 / 4)) \<and>
   (\<exists>r. owie_rows (Present (one_row (stored_row (PFloat (1 / 4)) (PInt 500) (PStr ''Rain'')
                                      (PStr ''light rain'')))) = owie_rows Missing @ [r] \<and>
        body_part r = PStr ''knee'' \<and> precipitation r = PFloat (1 / 4) \<and>
        same_value (pressure r) (PInt 1012))"
proof -
  have s: "ow_api_key berlin \<noteq> []" "db_path berlin \<noteq> []" "lat berlin \<noteq> 0" "lon berlin \<noteq> 0"
    by (simp_all add: berlin_def)
  let ?w' = "fresh\<lparr>requests := [weather_request ''key'' 52 13 default_exclude],
            db := Present (one_row (stored_row (PFloat (1 / 4)) (PInt 500) (PStr ''Rain'')
                                      (PStr ''light rain'')))\<rparr>"
  from log_owie_inserts_one_row [OF log_owie_light_rain s]
  obtain r where "owie_rows (db ?w') = owie_rows (db fresh) @ [r]" "body_part r = PStr ''knee''"
    by blast
  then have r: "owie_rows (Present (one_row (stored_row (PFloat (1 / 4)) (PInt 500) (PStr ''Rain'')
      (PStr ''light rain'')))) = owie_rows Missing @ [r]" "body_part r = PStr ''knee''"
    by (simp_all add: fresh_def)
  from r(1) have "r = stored_row (PFloat (1 / 4)) (PInt 500) (PStr ''Rain'') (PStr ''light rain'')"
    by (simp add: owie_rows_def empty_database_def one_row_def)
  then have "precipitation r = PFloat (1 / 4)" "same_value (pressure r) (PInt 1012)"
    by (simp_all add: stored_row_def same_value_def)
  with r have "\<exists>r. owie_rows (Present (one_row (stored_row (PFloat (1 / 4)) (PInt 500) (PStr ''Rain'')
                                      (PStr ''light rain'')))) = owie_rows Missing @ [r] \<and>
        body_part r = PStr ''knee'' \<and> precipitation r = PFloat (1 / 4) \<and>
        same_value (pressure r) (PInt 1012)"
    by blast
  with s log_owie_light_rain show ?thesis by (simp add: field_def)
qed

text \<open>
  C8. The reply of a request handled to the end is the dict with the message, the path
  parameter, and the temperature and the pressure of the payload fetched for this request.
\<close>

theorem log_owie_reply:
  assumes "log_owie s e bp w = (Inr rep, w')"
    and "ow_api_key s \<noteq> []" "db_path s \<noteq> []" "lat s \<noteq> 0" "lon s \<noteq> 0"
  shows "\<exists>kvs c t p.
     fst (get_weather_data e (ow_api_key s) (lat s) (lon s) default_exclude w) = Inr (PDict kvs) \<and>
     map_of kvs ''current'' = Some (PDict c) \<and>
     map_of c ''temp'' = Some t \<and> map_of c ''pressure'' = Some p \<and>
     rep = Reply [(''message'', PStr ''Logged owie details successfully''),
                  (''body_part'', PStr bp), (''temperature'', t), (''pressure'', p)]"
proof -
  from log_owie_success [OF assms] obtain payload w1 v where
    fetch: "get_weather_data e (ow_api_key s) (lat s) (lon s) default_exclude w = (Inr payload, w1)"
    and rd: "read_weather payload = Inr v" "\<not> incomplete v"
    and rep: "rep = success_reply bp v"
    by blast
  from read_weather_complete [OF rd] obtain kvs c where
    "payload = PDict kvs" "map_of kvs ''current'' = Some (PDict c)"
     "map_of c ''temp'' = Some (v_temperature v)"
     "map_of c ''pressure'' = Some (v_pressure v)"
    by blast
  with fetch rep show ?thesis
    by (intro exI [of _ kvs] exI [of _ c] exI [of _ "v_temperature v"] exI [of _ "v_pressure v"])
      (simp add: success_reply_def)
qed

theorem log_owie_reply_witness:
  "ow_api_key berlin \<noteq> [] \<and> db_path berlin \<noteq> [] \<and> lat berlin \<noteq> 0 \<and> lon berlin \<noteq> 0 \<and>
   fst (log_owie berlin (answering clear_sky) ''knee'' fresh) =
     Inr (Reply [(''message'', PStr ''Logged owie details successfully''),
                  (''body_part'', PStr ''knee''), (''temperature'', PFloat 70),
                  (''pressure'', PInt 1012)]) \<and>
   (\<exists>kvs c. fst (get_weather_data (answering clear_sky) ''key'' 52 13 default_exclude fresh) = Inr (PDict kvs) \<and>
      map_of kvs ''current'' = Some (PDict c) \<and>
      map_of c ''temp'' = Some (PFloat 70) \<and> map_of c ''pressure'' = Some (PInt 1012))"
proof -
  have s: "ow_api_key berlin \<noteq> []" "db_path berlin \<noteq> []" "lat berlin \<noteq> 0" "lon berlin \<noteq> 0"
    by (simp_all add: berlin_def)
  from log_owie_reply [OF log_owie_clear_sky s]
  have "\<exists>kvs c. fst (get_weather_data (answering clear_sky) ''key'' 52 13 default_exclude fresh) = Inr (PDict kvs) \<and>
      map_of kvs ''current'' = Some (PDict c) \<and>
      map_of c ''temp'' = Some (PFloat 70) \<and> map_of c ''pressure'' = Some (PInt 1012)"
    by (auto simp: berlin_def)
  with s log_owie_clear_sky show ?thesis by simp
qed

section \<open>The claim about setup_database\<close>

text \<open>
  C7, as stated: \<^verbatim>\<open>setup_database\<close> creates only the table \<^verbatim>\<open>owie_logs\<close>. On an absent file
  it leaves a database with two tables, \<^verbatim>\<open>owie_logs\<close> and \<^verbatim>\<open>sqlite_sequence\<close>.
\<close>

theorem creates_only_owie_logs_counterexample:
  "setup_database (answering clear_sky) Missing = Inr (Present no_row) \<and>
   table_names (connect Missing) = {} \<and>
   table_names no_row = {owie_logs, sqlite_sequence} \<and>
   sqlite_sequence \<noteq> owie_logs"
  by (auto simp: setup_fresh table_names_def no_row_def empty_database_def owie_logs_def
      sqlite_sequence_def)

text \<open>
  C7, amended. \<^verbatim>\<open>setup_database\<close> run twice is \<^verbatim>\<open>setup_database\<close> run once, whatever the
  file system answers the second time. When it succeeds the table \<^verbatim>\<open>owie_logs\<close> exists, no
  table has gone, the only tables that can be new are \<^verbatim>\<open>owie_logs\<close> and SQLite's
  \<^verbatim>\<open>sqlite_sequence\<close> (which is there whenever \<^verbatim>\<open>owie_logs\<close> had to be created), and the rows
  of every table and the entries of an existing \<^verbatim>\<open>sqlite_sequence\<close> are as they were; on a
  database that has the table \<^verbatim>\<open>owie_logs\<close> it changes nothing.
\<close>

theorem setup_database_idempotent:
  "and_then (setup_database e f) (setup_database e') = setup_database e f \<and>
   (setup_database e f = Inr f' \<longrightarrow>
      owie_logs \<in> table_names (connect f') \<and>
      table_names (connect f) \<subseteq> table_names (connect f') \<and>
      table_names (connect f') \<subseteq> table_names (connect f) \<union> {owie_logs, sqlite_sequence} \<and>
      (tables (connect f) owie_logs = None \<longrightarrow> sqlite_sequence \<in> table_names (connect f')) \<and>
      (\<forall>n. n \<noteq> owie_logs \<longrightarrow> tables (connect f') n = tables (connect f) n) \<and>
      (\<forall>m. sequence (connect f) = Some m \<longrightarrow> sequence (connect f') = Some m) \<and>
      owie_rows f' = owie_rows f) \<and>
   (tables d owie_logs = Some rs \<longrightarrow> setup_database e (Present d) = Inr (Present d))"
proof (intro conjI impI allI)
  show "and_then (setup_database e f) (setup_database e') = setup_database e f"
    by (cases "setup_database e f") (simp_all add: setup_database_again)
next
  assume ok: "setup_database e f = Inr f'"
  then have f': "f' = Present (create_table_if_not_exists (connect f))"
    by (rule setup_database_ok)
  from f' table_names_create [of "connect f"]
  show "owie_logs \<in> table_names (connect f')"
    "table_names (connect f) \<subseteq> table_names (connect f')"
    "table_names (connect f') \<subseteq> table_names (connect f) \<union> {owie_logs, sqlite_sequence}"
    by auto
  show "owie_rows f' = owie_rows f" using ok by (rule owie_rows_setup)
  show "sqlite_sequence \<in> table_names (connect f')" if "tables (connect f) owie_logs = None"
    using create_table_sequence(2) [OF that] f' by (auto simp: table_names_def)
  show "tables (connect f') n = tables (connect f) n" if "n \<noteq> owie_logs" for n
    using that f' by (simp add: create_table_lookup)
  show "sequence (connect f') = Some m" if "sequence (connect f) = Some m" for m
    using that f' by (simp add: create_table_sequence)
next
  assume "tables d owie_logs = Some rs"
  then show "setup_database e (Present d) = Inr (Present d)"
    by (simp add: setup_database_def ensure_file_def create_table_present)
qed

theorem setup_database_idempotent_witness:
  "setup_database (answering clear_sky) Missing = Inr (Present no_row) \<and>
   setup_database (answering clear_sky) (Present no_row) = Inr (Present no_row) \<and>
   owie_rows (Present no_row) = owie_rows Missing \<and>
   tables (connect Missing) owie_logs = None \<and>
   sqlite_sequence \<in> table_names no_row \<and>
   tables (one_row (stored_row (PFloat 0) (PInt 800) (PStr ''Clear'') (PStr ''clear sky''))) owie_logs =
     Some [stored_row (PFloat 0) (PInt 800) (PStr ''Clear'') (PStr ''clear sky'')] \<and>
   setup_database (answering clear_sky)
     (Present (one_row (stored_row (PFloat 0) (PInt 800) (PStr ''Clear'') (PStr ''clear sky'')))) =
     Inr (Present (one_row (stored_row (PFloat 0) (PInt 800) (PStr ''Clear'') (PStr ''clear sky''))))"
proof -
  have 1: "setup_database (answering clear_sky) Missing = Inr (Present no_row)"
    by (rule setup_fresh)
  have 2: "tables (connect Missing) owie_logs = None" by (simp add: empty_database_def)
  have 3: "tables (one_row (stored_row (PFloat 0) (PInt 800) (PStr ''Clear'') (PStr ''clear sky''))) owie_logs =
     Some [stored_row (PFloat 0) (PInt 800) (PStr ''Clear'') (PStr ''clear sky'')]"
    by (simp add: one_row_def)
  from 1 2 3 setup_database_idempotent [of "answering clear_sky" Missing "answering clear_sky"
      "Present no_row"
      "one_row (stored_row (PFloat 0) (PInt 800) (PStr ''Clear'') (PStr ''clear sky''))"
      "[stored_row (PFloat 0) (PInt 800) (PStr ''Clear'') (PStr ''clear sky'')]"]
  show ?thesis by simp
qed

lemma join_comma_mentions:
  "k \<in> set ks \<Longrightarrow> \<exists>pre post. join_comma ks = pre @ k @ post"
proof (induction ks rule: join_comma.induct)
  case 1
  then show ?case by simp
next
  case (2 x)
  then have "join_comma [x] = [] @ k @ []" by simp
  then show ?case by blast
next
  case (3 x y ys)
  show ?case
  proof (cases "k = x")
    case True
    then have "join_comma (x # y # ys) = [] @ k @ ('', '' @ join_comma (y # ys))" by simp
    then show ?thesis by blast
  next
    case False
    with 3 obtain pre post where "join_comma (y # ys) = pre @ k @ post" by auto
    then have "join_comma (x # y # ys) = (x @ '', '' @ pre) @ k @ post" by simp
    then show ?thesis by blast
  qed
qed

section \<open>The claim about the settings\<close>

text \<open>
  C10. With an empty API key, or a latitude or a longitude equal to 0, \<^verbatim>\<open>validate_settings\<close>
  raises ValueError with a message that names each such field, and \<^verbatim>\<open>log_owie\<close> returns the
  pair of the "Missing required environment variables" body and 400, without a GET and
  without touching the database.
\<close>

theorem zero_coordinate_is_missing:
  assumes "ow_api_key s = [] \<or> lat s = 0 \<or> lon s = 0"
  shows "validate_settings s =
           Inl (ValueError (''Missing required environment variables: '' @ join_comma (missing_keys s))) \<and>
         (ow_api_key s = [] \<longrightarrow> (\<exists>pre post. join_comma (missing_keys s) = pre @ ''ow_api_key'' @ post)) \<and>
         (lat s = 0 \<longrightarrow> (\<exists>pre post. join_comma (missing_keys s) = pre @ ''lat'' @ post)) \<and>
         (lon s = 0 \<longrightarrow> (\<exists>pre post. join_comma (missing_keys s) = pre @ ''lon'' @ post)) \<and>
         log_owie s e bp w =
           (Inr (ReplyPair [(''error'', PStr ''Missing required environment variables'')] 400), w)"
proof (intro conjI impI)
  from assms have "missing_keys s \<noteq> []" by (auto simp: missing_keys_def)
  then show "validate_settings s =
      Inl (ValueError (''Missing required environment variables: '' @ join_comma (missing_keys s)))"
    by (simp add: validate_settings_def)
  from assms show "log_owie s e bp w =
      (Inr (ReplyPair [(''error'', PStr ''Missing required environment variables'')] 400), w)"
    by (auto simp: log_owie_def)
next
  assume "ow_api_key s = []"
  then have "''ow_api_key'' \<in> set (missing_keys s)" by (simp add: missing_keys_def)
  then show "\<exists>pre post. join_comma (missing_keys s) = pre @ ''ow_api_key'' @ post"
    by (rule join_comma_mentions)
next
  assume "lat s = 0"
  then have "''lat'' \<in> set (missing_keys s)" by (simp add: missing_keys_def)
  then show "\<exists>pre post. join_comma (missing_keys s) = pre @ ''lat'' @ post"
    by (rule join_comma_mentions)
next
  assume "lon s = 0"
  then have "''lon'' \<in> set (missing_keys s)" by (simp add: missing_keys_def)
  then show "\<exists>pre post. join_comma (missing_keys s) = pre @ ''lon'' @ post"
    by (rule join_comma_mentions)
qed

theorem zero_coordinate_is_missing_witness:
  "lat equator = 0 \<and>
   validate_settings equator = Inl (ValueError ''Missing required environment variables: lat'') \<and>
   log_owie equator (answering clear_sky) ''knee'' fresh =
     (Inr (ReplyPair [(''error'', PStr ''Missing required environment variables'')] 400), fresh)"
proof -
  have 1: "lat equator = 0" by (simp add: equator_def)
  have 2: "missing_keys equator = [''lat'']" by (simp add: missing_keys_def equator_def)
  from zero_coordinate_is_missing [of equator "answering clear_sky" "''knee''" fresh] 1 2
  show ?thesis by simp
qed

section \<open>Incomplete payloads\<close>

text \<open>
  A reading with a None among the eight checked values ends the request with RuntimeError
  before the database is opened.
\<close>

lemma log_owie_incomplete:
  assumes "ow_api_key s \<noteq> []" "db_path s \<noteq> []" "lat s \<noteq> 0" "lon s \<noteq> 0"
    and "get_weather_data e (ow_api_key s) (lat s) (lon s) default_exclude w = (Inr payload, w1)"
    and "read_weather payload = Inr v" and "incomplete v"
  shows "log_owie s e bp w =
           (Inl (RuntimeError ''Incomplete weather data received from the API.''), w1) \<and>
         db w1 = db w"
proof -
  from assms(5) db_get_weather_data [of e "ow_api_key s" "lat s" "lon s" default_exclude w]
  have "db w1 = db w" by simp
  with assms show ?thesis by (simp add: log_owie_def)
qed

text \<open>
  C4. A payload whose \<^verbatim>\<open>current.weather\<close> is the empty list has no first weather entry, so
  its id, main and description are missing; \<^verbatim>\<open>log_owie\<close> raises IndexError on it, not the
  RuntimeError that it raises when the key \<^verbatim>\<open>weather\<close> is absent. In both runs the database
  file is still absent afterwards.
\<close>

theorem log_owie_empty_weather_list:
  "log_owie berlin (answering no_weather_entry) ''knee'' fresh =
     (Inl (IndexError ''list index out of range''),
      fresh\<lparr>requests := [weather_request ''key'' 52 13 default_exclude]\<rparr>) \<and>
   log_owie berlin (answering no_weather_key) ''knee'' fresh =
     (Inl (RuntimeError ''Incomplete weather data received from the API.''),
      fresh\<lparr>requests := [weather_request ''key'' 52 13 default_exclude]\<rparr>)"
  using log_owie_no_entry log_owie_no_key by simp

section \<open>Routing\<close>

lemma match_param_last:
  assumes "drop 1 (dropWhile (\<lambda>x. x \<noteq> CHR ''}'') t) = []"
  shows "match_path (CHR ''{'' # t) q = Some ps \<longleftrightarrow> q \<noteq> [] \<and> CHR ''/'' \<notin> set q \<and> ps = [q]"
proof (cases "dropWhile (\<lambda>x. x \<noteq> CHR ''/'') q")
  case Nil
  from assms have a: "drop (Suc 0) (dropWhile (\<lambda>x. x \<noteq> CHR ''}'') t) = []" by simp
  from Nil have all: "\<forall>x\<in>set q. x \<noteq> CHR ''/''" by (simp add: dropWhile_eq_Nil_conv)
  then have tw: "takeWhile (\<lambda>x. x \<noteq> CHR ''/'') q = q" by (simp add: takeWhile_eq_all_conv)
  have "match_path (CHR ''{'' # t) q = (if q = [] then None else Some [q])"
    by (subst match_path.simps) (simp add: tw Nil a match_path.simps(1))
  with all show ?thesis by auto
next
  case (Cons x xs)
  from assms have a: "drop (Suc 0) (dropWhile (\<lambda>x. x \<noteq> CHR ''}'') t) = []" by simp
  from Cons have x: "x = CHR ''/''" by (simp add: dropWhile_eq_Cons_conv)
  have "set (dropWhile (\<lambda>x. x \<noteq> CHR ''/'') q) \<subseteq> set q" by (rule set_dropWhileD [THEN subsetI])
  with Cons x have mem: "CHR ''/'' \<in> set q" by auto
  have "match_path (CHR ''{'' # t) q = None"
    by (subst match_path.simps) (simp add: Cons x a match_path.simps(1))
  with mem show ?thesis by simp
qed

lemma match_literal:
  assumes "c \<noteq> CHR ''{''"
  shows "match_path (c # t) p = Some ps \<longleftrightarrow> (\<exists>p'. p = c # p' \<and> match_path t p' = Some ps)"
  using assms by (cases p) (auto simp: match_path.simps(2))

lemma match_prefix:
  assumes "CHR ''{'' \<notin> set lit"
  shows "match_path (lit @ t) p = Some ps \<longleftrightarrow> (\<exists>q. p = lit @ q \<and> match_path t q = Some ps)"
  using assms
proof (induction lit arbitrary: p)
  case Nil
  then show ?case by simp
next
  case (Cons c lit)
  then have c: "c \<noteq> CHR ''{''" and lit: "CHR ''{'' \<notin> set lit" by auto
  have "match_path ((c # lit) @ t) p = Some ps \<longleftrightarrow>
      (\<exists>p'. p = c # p' \<and> match_path (lit @ t) p' = Some ps)"
    using match_literal [OF c, of "lit @ t" p ps] by simp
  also have "\<dots> \<longleftrightarrow> (\<exists>p'. p = c # p' \<and> (\<exists>q. p' = lit @ q \<and> match_path t q = Some ps))"
    using Cons.IH [OF lit] by simp
  also have "\<dots> \<longleftrightarrow> (\<exists>q. p = (c # lit) @ q \<and> match_path t q = Some ps)"
    by auto
  finally show ?case .
qed

lemma match_owie:
  "match_path ''/owie/{body_part}'' p = Some ps \<longleftrightarrow>
     (\<exists>bp. p = ''/owie/'' @ bp \<and> bp \<noteq> [] \<and> CHR ''/'' \<notin> set bp \<and> ps = [bp])"
proof -
  have last: "match_path ''{body_part}'' q = Some ps \<longleftrightarrow> q \<noteq> [] \<and> CHR ''/'' \<notin> set q \<and> ps = [q]" for q
    by (rule match_param_last) simp
  have "match_path (''/owie/'' @ ''{body_part}'') p = Some ps \<longleftrightarrow>
      (\<exists>q. p = ''/owie/'' @ q \<and> match_path ''{body_part}'' q = Some ps)"
    by (rule match_prefix) simp
  then show ?thesis unfolding last by simp
qed

lemma full_match_Some:
  "full_match m p r = Some (h, qs) \<longleftrightarrow>
     match_path (route_path r) p = Some qs \<and> m \<in> set (route_methods r) \<and> h = route_endpoint r"
  by (auto simp: full_match_def split: option.splits)

lemma resolve_Handled:
  "resolve rs m p = Handled h ps \<longleftrightarrow>
     (\<exists>rest. List.map_filter (full_match m p) rs = (h, ps) # rest)"
  by (auto simp: resolve_def split: list.splits)

lemma map_filter_append: "List.map_filter f (xs @ ys) = List.map_filter f xs @ List.map_filter f ys"
  by (simp add: List.map_filter_def)

lemma map_filter_set:
  "x \<in> set (List.map_filter f xs) \<longleftrightarrow> (\<exists>r\<in>set xs. f r = Some x)"
  by (auto simp: List.map_filter_def image_iff)

lemma app_routes_split:
  "app_routes = other_routes @ [api_route POST ''/owie/{body_part}'' Log_owie]"
  by (simp add: app_routes_def declared_routes_def other_routes_def)

lemma other_routes_full_match:
  assumes "r \<in> set other_routes" and "full_match m p r = Some (h, qs)"
  shows "h \<noteq> Log_owie \<and> m \<noteq> POST"
  using assms
  by (auto simp: other_routes_def fastapi_routes_def api_route_def full_match_Some)

lemma owie_route_full_match:
  "List.map_filter (full_match m p) [api_route POST ''/owie/{body_part}'' Log_owie] = (h, qs) # rest
   \<longleftrightarrow> m = POST \<and> h = Log_owie \<and> rest = [] \<and> match_path ''/owie/{body_part}'' p = Some qs"
proof (cases "full_match m p (api_route POST ''/owie/{body_part}'' Log_owie)")
  case None
  then have "\<not> (m = POST \<and> match_path ''/owie/{body_part}'' p = Some qs)"
    by (auto simp: full_match_def api_route_def split: option.splits)
  with None show ?thesis by (auto simp: List.map_filter_simps)
next
  case (Some x)
  obtain h' qs' where x: "x = (h', qs')" by (cases x)
  with Some have "match_path ''/owie/{body_part}'' p = Some qs'" "m = POST" "h' = Log_owie"
    by (simp_all add: full_match_Some api_route_def)
  with Some x show ?thesis by (auto simp: List.map_filter_simps)
qed

lemma resolve_log_owie:
  "resolve app_routes m p = Handled Log_owie ps \<longleftrightarrow>
     m = POST \<and> (\<exists>bp. p = ''/owie/'' @ bp \<and> bp \<noteq> [] \<and> CHR ''/'' \<notin> set bp \<and> ps = [bp])"
proof -
  let ?others = "List.map_filter (full_match m p) other_routes"
  let ?owie = "List.map_filter (full_match m p) [api_route POST ''/owie/{body_part}'' Log_owie]"
  have others: "fst x \<noteq> Log_owie \<and> m \<noteq> POST" if "x \<in> set ?others" for x
  proof -
    from that obtain r where "r \<in> set other_routes" "full_match m p r = Some x"
      by (auto simp: map_filter_set)
    then show ?thesis using other_routes_full_match [of r m p "fst x" "snd x"] by simp
  qed
  have "resolve app_routes m p = Handled Log_owie ps \<longleftrightarrow>
      (\<exists>rest. ?others @ ?owie = (Log_owie, ps) # rest)"
    by (simp add: resolve_Handled app_routes_split map_filter_append)
  also have "\<dots> \<longleftrightarrow> ?others = [] \<and> (\<exists>rest. ?owie = (Log_owie, ps) # rest)"
  proof (cases ?others)
    case Nil
    then show ?thesis by simp
  next
    case (Cons x xs)
    with others [of x] show ?thesis by auto
  qed
  also have "\<dots> \<longleftrightarrow> m = POST \<and> match_path ''/owie/{body_part}'' p = Some ps"
  proof (cases "m = POST")
    case True
    with others have "?others = []" by (cases ?others) auto
    with True show ?thesis unfolding owie_route_full_match by simp
  next
    case False
    then show ?thesis unfolding owie_route_full_match by simp
  qed
  finally show ?thesis by (simp add: match_owie)
qed

lemma resolve_home: "resolve app_routes GET ''/'' = Handled Home []"
  by (simp add: resolve_def app_routes_def fastapi_routes_def declared_routes_def api_route_def
      List.map_filter_simps full_match_def match_path.simps)

section \<open>The claim about the routes\<close>

text \<open>
  C6, as stated: the service exposes exactly one HTTP endpoint. GET \<^verbatim>\<open>/\<close> and POST
  \<^verbatim>\<open>/owie/knee\<close> reach two different handlers, and the application has more than one route.
\<close>

theorem more_than_one_route_counterexample:
  "resolve app_routes GET ''/'' = Handled Home [] \<and>
   resolve app_routes POST ''/owie/knee'' = Handled Log_owie [''knee''] \<and>
   length app_routes \<noteq> 1"
proof -
  have "resolve app_routes POST ''/owie/knee'' = Handled Log_owie [''knee'']"
    unfolding resolve_log_owie by simp
  then show ?thesis
    by (simp add: resolve_home) (simp add: app_routes_def fastapi_routes_def declared_routes_def)
qed

text \<open>
  C6, amended. The service exposes exactly one HTTP endpoint that logs an owie: a request
  reaches \<^verbatim>\<open>log_owie\<close> exactly when it is a POST to \<^verbatim>\<open>/owie/\<close> followed by one non-empty
  segment, which is its body part; one route of the application has this handler, and every
  other handler leaves the database, and the rest of the world, as it is. That route is not
  the only one: \<^verbatim>\<open>main.py\<close> declares GET \<^verbatim>\<open>/\<close> as well, whose handler returns a fixed message.
\<close>

theorem one_logging_route:
  "(resolve app_routes m p = Handled Log_owie ps \<longleftrightarrow>
      m = POST \<and> (\<exists>bp. p = ''/owie/'' @ bp \<and> bp \<noteq> [] \<and> CHR ''/'' \<notin> set bp \<and> ps = [bp])) \<and>
   run_handler s e Log_owie [bp] w = log_owie s e bp w \<and>
   (h \<noteq> Log_owie \<longrightarrow> snd (run_handler s e h qs w) = w) \<and>
   length (filter (\<lambda>r. route_endpoint r = Log_owie) app_routes) = 1 \<and>
   map route_endpoint declared_routes = [Home, Log_owie] \<and>
   resolve app_routes GET ''/'' = Handled Home [] \<and>
   run_handler s e Home qs w = (Inr home, w)"
proof -
  have "h \<noteq> Log_owie \<longrightarrow> snd (run_handler s e h qs w) = w"
    by (cases h) (simp_all add: run_handler_def)
  moreover have "length (filter (\<lambda>r. route_endpoint r = Log_owie) app_routes) = 1"
    by (simp add: app_routes_def fastapi_routes_def declared_routes_def api_route_def)
  moreover have "map route_endpoint declared_routes = [Home, Log_owie]"
    by (simp add: declared_routes_def api_route_def)
  ultimately show ?thesis
    by (simp add: resolve_log_owie resolve_home run_handler_def)
qed

theorem one_logging_route_witness:
  "resolve app_routes POST ''/owie/knee'' = Handled Log_owie [''knee''] \<and>
   resolve app_routes GET ''/owie/knee'' \<noteq> Handled Log_owie [''knee''] \<and>
   Home \<noteq> Log_owie \<and>
   snd (run_handler berlin (answering clear_sky) Home [] fresh) = fresh \<and>
   run_handler berlin (answering clear_sky) Log_owie [''knee''] fresh =
     log_owie berlin (answering clear_sky) ''knee'' fresh"
  using one_logging_route [of POST "''/owie/knee''" "[''knee'']" berlin "answering clear_sky"
      "''knee''" fresh Home "[]"]
    one_logging_route [of GET "''/owie/knee''" "[''knee'']" berlin "answering clear_sky"
      "''knee''" fresh Home "[]"]
  by simp

end
